theory Spec2Isabelle
  imports Main "HOL-Library.Word"
begin

section \<open>Data model\<close>

text \<open>
  The transaction construction code of the wallet (\<open>lib/coinbase-smart-wallet.ts\<close>,
  \<open>lib/ens-manager.ts\<close>, \<open>lib/nft-manager.ts\<close>) handles hex strings produced by the
  \<open>ethers\<close> library. A payload (\<open>'0x...'\<close>) is modelled as the byte sequence it denotes, so
  \<open>data.slice(0, 10)\<close> is the first four bytes and \<open>data !== '0x'\<close> is non-emptiness. An
  address is the 20-byte value it denotes, so comparisons after \<open>toLowerCase()\<close> are
  equalities, and so is the one comparison of the raw strings
  (\<open>call.target !== smartWalletAddress\<close>). Values supplied by a caller (\<open>bigint\<close>,
  \<open>number\<close>, a token id given as a decimal string) are \<open>int\<close>; quantities returned
  by the chain are \<open>nat\<close>. Console output is not modelled, and the formatting of amounts
  for messages is taken to succeed.
\<close>

type_synonym byte = "8 word"
type_synonym bytes = "byte list"
type_synonym address = "160 word"
type_synonym bytes32 = "256 word"

text \<open>\<open>interface Call { target: string; value: bigint; data: string }\<close>\<close>

record Call =
  target :: address
  val :: int
  data :: bytes

text \<open>The fields of \<open>ethers.TransactionRequest\<close> that the assembler fills in.\<close>

record TransactionRequest =
  tx_to :: address
  tx_value :: int
  tx_data :: bytes
  tx_nonce :: nat
  tx_chainId :: int
  tx_type :: nat
  tx_maxFeePerGas :: "nat option"
  tx_maxPriorityFeePerGas :: "nat option"
  tx_gasLimit :: nat

text \<open>\<open>ethers.FeeData\<close>: either fee may be \<open>null\<close>.\<close>

record FeeData =
  maxFeePerGas :: "nat option"
  maxPriorityFeePerGas :: "nat option"

text \<open>The result of \<open>getENSInfo\<close>; \<open>tokenOwner\<close> is \<open>None\<close> for the empty string.\<close>

record ENSInfo =
  tokenOwner :: "address option"
  registryOwner :: "address option"
  ethRecord :: "address option"
  resolver :: "address option"

text \<open>
  The chain as seen through \<open>ethers.Provider\<close> and through the read-only methods of
  \<open>ethers.Contract\<close> that the code calls. \<open>None\<close> stands for a rejected promise: a
  network failure, a revert, or a reply that the library cannot decode.
\<close>

record Provider =
  getCode :: "address \<Rightarrow> bytes option"
  getBalance :: "address \<Rightarrow> nat option"
  getTransactionCount :: "address \<Rightarrow> nat option"
  getFeeData :: "FeeData option"
  estimateGas :: "address \<Rightarrow> address \<Rightarrow> bytes \<Rightarrow> int \<Rightarrow> nat option"
  provider_call :: "address \<Rightarrow> address \<Rightarrow> bytes \<Rightarrow> bytes option"
  isOwnerAddress :: "address \<Rightarrow> address \<Rightarrow> bool option"
  ownerOf :: "address \<Rightarrow> nat \<Rightarrow> address option"
  balanceOf :: "address \<Rightarrow> address \<Rightarrow> nat option"
  balanceOf1155 :: "address \<Rightarrow> address \<Rightarrow> nat \<Rightarrow> nat option"
  symbol :: "address \<Rightarrow> string option"
  decimals :: "address \<Rightarrow> nat option"
  registry_owner :: "bytes32 \<Rightarrow> address option"
  registry_resolver :: "bytes32 \<Rightarrow> address option"
  resolver_addr :: "address \<Rightarrow> bytes32 \<Rightarrow> address option"

text \<open>One constructor per network request, in the order of the record above.\<close>

datatype netcall =
    GetCode address
  | GetBalance address
  | GetTransactionCount address
  | GetFeeData
  | EstimateGas address address bytes
  | Simulate address address bytes
  | IsOwnerAddress address address
  | OwnerOf address nat
  | BalanceOf address address
  | BalanceOf1155 address address nat
  | Symbol address
  | Decimals address
  | RegistryOwner bytes32
  | RegistryResolver bytes32
  | ResolverAddr address bytes32

text \<open>
  \<open>chainId === 1 ? 'Ethereum' : chainId === 8453 ? 'Base' : `Chain ${chainId}`\<close>
\<close>

datatype chain_name = Ethereum | Base | Chain int

definition chainName :: "int \<Rightarrow> chain_name" where
  "chainName chainId =
     (if chainId = 1 then Ethereum else if chainId = 8453 then Base else Chain chainId)"

text \<open>
  The code throws plain \<open>Error\<close> objects and tells them apart by their message. Each
  \<open>throw new Error\<close> of the source is one constructor, carrying the values interpolated
  into its message; \<open>LibraryError\<close> is anything thrown by \<open>ethers\<close> or by the provider.
\<close>

datatype error =
    LibraryError
  | AccountNotDeployedError address chain_name
  | NotOwnerError address address
  | NFTNotOwnedError address address
  | NFTOwnerUnverifiableError nat
  | NFTSimulationFailedError
  | MultiTokenInsufficientError nat nat address
  | MultiTokenUnverifiableError nat
  | MultiTokenSimulationFailedError
  | InsufficientTokenBalanceError nat nat string nat
  | TokenSimulationFailedError string
  | GasEstimationFailedError
  | InsufficientGasFundsError nat nat

text \<open>
  The substring tests of the \<open>catch\<close> blocks, on the messages of the source. A library
  message is taken to contain none of the Italian markers.
\<close>

fun includes_NON_possiede :: "error \<Rightarrow> bool" where
  "includes_NON_possiede (NFTNotOwnedError _ _) = True"
| "includes_NON_possiede (MultiTokenInsufficientError _ _ _) = True"
| "includes_NON_possiede _ = False"

fun includes_ERRORE :: "error \<Rightarrow> bool" where
  "includes_ERRORE LibraryError = False"
| "includes_ERRORE (AccountNotDeployedError _ _) = False"
| "includes_ERRORE (NotOwnerError _ _) = False"
| "includes_ERRORE (InsufficientGasFundsError _ _) = False"
| "includes_ERRORE _ = True"

fun includes_Balance_insufficiente :: "error \<Rightarrow> bool" where
  "includes_Balance_insufficiente (InsufficientTokenBalanceError _ _ _ _) = True"
| "includes_Balance_insufficiente _ = False"

fun includes_ERRORE_CRITICO :: "error \<Rightarrow> bool" where
  "includes_ERRORE_CRITICO (TokenSimulationFailedError _) = True"
| "includes_ERRORE_CRITICO _ = False"

section \<open>Asynchronous code with a request log\<close>

text \<open>
  An \<open>async\<close> computation yields the list of network requests it issued and either the
  error it threw or its value.
\<close>

type_synonym 'a io = "netcall list \<times> (error + 'a)"

definition io_return :: "'a \<Rightarrow> 'a io" where
  "io_return x = ([], Inr x)"

definition io_throw :: "error \<Rightarrow> 'a io" where
  "io_throw e = ([], Inl e)"

definition io_bind :: "'a io \<Rightarrow> ('a \<Rightarrow> 'b io) \<Rightarrow> 'b io" where
  "io_bind m f =
     (case snd m of
        Inl e \<Rightarrow> (fst m, Inl e)
      | Inr x \<Rightarrow> (fst m @ fst (f x), snd (f x)))"

definition io_catch :: "'a io \<Rightarrow> (error \<Rightarrow> 'a io) \<Rightarrow> 'a io" where
  "io_catch m h =
     (case snd m of
        Inl e \<Rightarrow> (fst m @ fst (h e), snd (h e))
      | Inr x \<Rightarrow> m)"

definition await :: "netcall \<Rightarrow> 'a option \<Rightarrow> 'a io" where
  "await c r = ([c], case r of None \<Rightarrow> Inl LibraryError | Some x \<Rightarrow> Inr x)"

definition lift :: "error + 'a \<Rightarrow> 'a io" where
  "lift r = ([], r)"

text \<open>\<open>Promise.all\<close>: every request is issued; the result rejects if one of them does.\<close>

definition promise_all2 :: "'a io \<Rightarrow> 'b io \<Rightarrow> ('a \<times> 'b) io" where
  "promise_all2 a b =
     (fst a @ fst b,
      case snd a of
        Inl e \<Rightarrow> Inl e
      | Inr x \<Rightarrow> (case snd b of Inl e \<Rightarrow> Inl e | Inr y \<Rightarrow> Inr (x, y)))"

definition promise_all3 :: "'a io \<Rightarrow> 'b io \<Rightarrow> 'c io \<Rightarrow> ('a \<times> 'b \<times> 'c) io" where
  "promise_all3 a b c = promise_all2 a (promise_all2 b c)"

section \<open>The contract ABI as implemented by the library\<close>

text \<open>
  \<open>Interface.encodeFunctionData\<close> and \<open>Interface.decodeFunctionData\<close> belong to
  \<open>ethers\<close>, not to the repository. They are modelled after the Solidity contract ABI:
  a four-byte selector followed by 32-byte big-endian words, dynamic \<open>bytes\<close> placed
  behind the static part and reached through an offset word.
\<close>

fun be_bytes :: "nat \<Rightarrow> nat \<Rightarrow> bytes" where
  "be_bytes 0 v = []"
| "be_bytes (Suc n) v = be_bytes n (v div 256) @ [of_nat (v mod 256)]"

definition be_nat :: "bytes \<Rightarrow> nat" where
  "be_nat bs = foldl (\<lambda>a b. a * 256 + unat b) 0 bs"

text \<open>An argument accepted for \<open>uint256\<close>, and a JavaScript \<open>number\<close> accepted for it.\<close>

definition uint256_ok :: "int \<Rightarrow> bool" where
  "uint256_ok v \<longleftrightarrow> 0 \<le> v \<and> v < 2 ^ 256"

definition maxSafeInteger :: nat where
  "maxSafeInteger = 9007199254740991"

definition number_ok :: "int \<Rightarrow> bool" where
  "number_ok v \<longleftrightarrow> 0 \<le> v \<and> v \<le> int maxSafeInteger"

definition abi_word :: "nat \<Rightarrow> bytes" where
  "abi_word v = be_bytes 32 v"

definition abi_address :: "address \<Rightarrow> bytes" where
  "abi_address a = abi_word (unat a)"

definition abi_bytes32 :: "bytes32 \<Rightarrow> bytes" where
  "abi_bytes32 h = abi_word (unat h)"

definition padding :: "nat \<Rightarrow> nat" where
  "padding n = (32 - n mod 32) mod 32"

definition abi_bytes :: "bytes \<Rightarrow> bytes" where
  "abi_bytes b = abi_word (length b) @ b @ replicate (padding (length b)) 0"

text \<open>
  Reading: a word at a byte offset; an address (a word with more than 20 significant bytes
  is rejected); a \<open>bytes\<close> value whose offset word is at \<open>off\<close> (offsets and lengths
  beyond the safe integers are rejected, and the padded content has to be present).
\<close>

definition read_word :: "bytes \<Rightarrow> nat \<Rightarrow> nat option" where
  "read_word d off =
     (if off + 32 \<le> length d then Some (be_nat (take 32 (drop off d))) else None)"

definition read_address :: "bytes \<Rightarrow> nat \<Rightarrow> address option" where
  "read_address d off =
     (case read_word d off of
        None \<Rightarrow> None
      | Some v \<Rightarrow> if v < 2 ^ 160 then Some (of_nat v) else None)"

definition read_bytes :: "bytes \<Rightarrow> nat \<Rightarrow> bytes option" where
  "read_bytes d off =
     (case read_word d off of
        None \<Rightarrow> None
      | Some p \<Rightarrow>
          if maxSafeInteger < p then None
          else (case read_word d p of
                  None \<Rightarrow> None
                | Some n \<Rightarrow>
                    if maxSafeInteger < n then None
                    else if p + 32 + n + padding n \<le> length d
                    then Some (take n (drop (p + 32) d))
                    else None))"

text \<open>
  The same for a \<open>bytes\<close> argument that is decoded but never read afterwards: the library
  defers the complaint about an oversized length to the first access.
\<close>

definition skip_bytes :: "bytes \<Rightarrow> nat \<Rightarrow> bool" where
  "skip_bytes d off =
     (case read_word d off of
        None \<Rightarrow> False
      | Some p \<Rightarrow>
          if maxSafeInteger < p then False
          else (case read_word d p of
                  None \<Rightarrow> False
                | Some n \<Rightarrow> maxSafeInteger < n \<or> p + 32 + n + padding n \<le> length d))"

subsection \<open>Selectors\<close>

text \<open>
  The first four bytes of the Keccak-256 hash of each signature in the ABI lists of the
  source. The pre-flight code spells out four of them as literals.
\<close>

definition sel_transfer :: bytes where
  "sel_transfer = [0xa9, 0x05, 0x9c, 0xbb]"

definition sel_transferFrom :: bytes where
  "sel_transferFrom = [0x23, 0xb8, 0x72, 0xdd]"

definition sel_safeTransferFrom :: bytes where
  "sel_safeTransferFrom = [0x42, 0x84, 0x2e, 0x0e]"

definition sel_safeTransferFrom1155 :: bytes where
  "sel_safeTransferFrom1155 = [0xf2, 0x42, 0x43, 0x2a]"

definition sel_execute :: bytes where
  "sel_execute = [0xb6, 0x1d, 0x27, 0xf6]"

definition sel_executeBatch :: bytes where
  "sel_executeBatch = [0x34, 0xfc, 0xd5, 0xbe]"

definition sel_addOwnerAddress :: bytes where
  "sel_addOwnerAddress = [0x0f, 0x0f, 0x3f, 0x24]"

definition sel_removeOwnerAtIndex :: bytes where
  "sel_removeOwnerAtIndex = [0x89, 0x62, 0x5b, 0x57]"

definition sel_setAddr :: bytes where
  "sel_setAddr = [0xd5, 0xfa, 0x2b, 0x00]"

definition sel_setOwner :: bytes where
  "sel_setOwner = [0x5b, 0x0f, 0xc9, 0xc3]"

subsection \<open>Encoding the calls of the source\<close>

text \<open>\<open>encodeFunctionData('transfer', [recipient, amountWei])\<close> with \<open>ERC20_ABI\<close>.\<close>

definition encode_transfer :: "address \<Rightarrow> int \<Rightarrow> error + bytes" where
  "encode_transfer recipient amountWei =
     (if uint256_ok amountWei
      then Inr (sel_transfer @ abi_address recipient @ abi_word (nat amountWei))
      else Inl LibraryError)"

text \<open>\<open>encodeFunctionData('safeTransferFrom', [from, to, tokenId])\<close> with an ERC-721 ABI.\<close>

definition encode_safeTransferFrom :: "address \<Rightarrow> address \<Rightarrow> int \<Rightarrow> error + bytes" where
  "encode_safeTransferFrom fromAddress toAddress tokenId =
     (if uint256_ok tokenId
      then Inr (sel_safeTransferFrom @ abi_address fromAddress @ abi_address toAddress
                @ abi_word (nat tokenId))
      else Inl LibraryError)"

text \<open>
  \<open>encodeFunctionData('safeTransferFrom', [from, to, id, amount, data])\<close> with an ERC-1155
  ABI. The static part has five words, so the \<open>bytes\<close> argument starts at offset 160.
\<close>

definition encode_safeTransferFrom1155 ::
  "address \<Rightarrow> address \<Rightarrow> int \<Rightarrow> int \<Rightarrow> bytes \<Rightarrow> error + bytes" where
  "encode_safeTransferFrom1155 fromAddress toAddress tokenId amount extra =
     (if uint256_ok tokenId \<and> uint256_ok amount
      then Inr (sel_safeTransferFrom1155 @ abi_address fromAddress @ abi_address toAddress
                @ abi_word (nat tokenId) @ abi_word (nat amount) @ abi_word 160
                @ abi_bytes extra)
      else Inl LibraryError)"

text \<open>\<open>encodeFunctionData('addOwnerAddress', [newOwnerAddress])\<close>\<close>

definition encode_addOwnerAddress :: "address \<Rightarrow> bytes" where
  "encode_addOwnerAddress account = sel_addOwnerAddress @ abi_address account"

text \<open>
  \<open>encodeFunctionData('removeOwnerAtIndex', [ownerIndex, ownerBytes])\<close>; \<open>ownerIndex\<close>
  is a JavaScript \<open>number\<close>.
\<close>

definition encode_removeOwnerAtIndex :: "int \<Rightarrow> bytes \<Rightarrow> error + bytes" where
  "encode_removeOwnerAtIndex ownerIndex ownerBytes =
     (if number_ok ownerIndex
      then Inr (sel_removeOwnerAtIndex @ abi_word (nat ownerIndex) @ abi_word 64
                @ abi_bytes ownerBytes)
      else Inl LibraryError)"

text \<open>\<open>encodeFunctionData('setAddr', [namehash, newOwner])\<close> and the same for \<open>setOwner\<close>.\<close>

definition encode_setAddr :: "bytes32 \<Rightarrow> address \<Rightarrow> bytes" where
  "encode_setAddr node a = sel_setAddr @ abi_bytes32 node @ abi_address a"

definition encode_setOwner :: "bytes32 \<Rightarrow> address \<Rightarrow> bytes" where
  "encode_setOwner node a = sel_setOwner @ abi_bytes32 node @ abi_address a"

subsection \<open>Decoding\<close>

text \<open>
  \<open>decodeFunctionData(name, data)\<close> followed by the reads \<open>decoded[i]\<close> of the source.
  It throws when the selector of \<open>data\<close> is not that of \<open>name\<close>.
\<close>

definition decode_transfer :: "bytes \<Rightarrow> (address \<times> nat) option" where
  "decode_transfer d =
     (if take 4 d \<noteq> sel_transfer then None
      else (case read_address (drop 4 d) 0 of
              None \<Rightarrow> None
            | Some recipient \<Rightarrow>
                (case read_word (drop 4 d) 32 of
                   None \<Rightarrow> None
                 | Some transferAmount \<Rightarrow> Some (recipient, transferAmount))))"

definition decode_transferFrom :: "bytes \<Rightarrow> (address \<times> address \<times> nat) option" where
  "decode_transferFrom d =
     (if take 4 d \<noteq> sel_transferFrom then None
      else (case read_address (drop 4 d) 0 of
              None \<Rightarrow> None
            | Some fromA \<Rightarrow>
                (case read_address (drop 4 d) 32 of
                   None \<Rightarrow> None
                 | Some toA \<Rightarrow>
                     (case read_word (drop 4 d) 64 of
                        None \<Rightarrow> None
                      | Some tokenId \<Rightarrow> Some (fromA, toA, tokenId)))))"

definition decode_safeTransferFrom1155 ::
  "bytes \<Rightarrow> (address \<times> address \<times> nat \<times> nat) option" where
  "decode_safeTransferFrom1155 d =
     (if take 4 d \<noteq> sel_safeTransferFrom1155 then None
      else (case read_address (drop 4 d) 0 of
              None \<Rightarrow> None
            | Some fromA \<Rightarrow>
                (case read_address (drop 4 d) 32 of
                   None \<Rightarrow> None
                 | Some toA \<Rightarrow>
                     (case read_word (drop 4 d) 64 of
                        None \<Rightarrow> None
                      | Some tokenId \<Rightarrow>
                          (case read_word (drop 4 d) 96 of
                             None \<Rightarrow> None
                           | Some amount \<Rightarrow>
                               if skip_bytes (drop 4 d) 128
                               then Some (fromA, toA, tokenId, amount)
                               else None)))))"

text \<open>
  \<open>decodeFunctionData('removeOwnerAtIndex', data)\<close> with the wallet ABI, reading both
  arguments. The source never calls it; it is the decoder that the wallet contract and
  any reader of the payload apply.
\<close>

definition decode_removeOwnerAtIndex :: "bytes \<Rightarrow> (nat \<times> bytes) option" where
  "decode_removeOwnerAtIndex d =
     (if take 4 d \<noteq> sel_removeOwnerAtIndex then None
      else (case read_word (drop 4 d) 0 of
              None \<Rightarrow> None
            | Some index \<Rightarrow>
                (case read_bytes (drop 4 d) 32 of
                   None \<Rightarrow> None
                 | Some owner \<Rightarrow> Some (index, owner))))"

section \<open>Call encoder (coinbase-smart-wallet.ts)\<close>

definition createSendETHCall :: "address \<Rightarrow> int \<Rightarrow> Call" where
  "createSendETHCall recipient amountWei =
     \<lparr>target = recipient, val = amountWei, data = []\<rparr>"

definition createSendERC20Call :: "address \<Rightarrow> address \<Rightarrow> int \<Rightarrow> error + Call" where
  "createSendERC20Call tokenAddress recipient amountWei =
     (case encode_transfer recipient amountWei of
        Inl e \<Rightarrow> Inl e
      | Inr d \<Rightarrow> Inr \<lparr>target = tokenAddress, val = 0, data = d\<rparr>)"

text \<open>
  The parameters \<open>provider\<close>, \<open>ownerAddress\<close> and \<open>chainId\<close> of the two owner-management
  encoders are unused in the source and kept here in the same positions. The source
  writes the value as the string \<open>'0'\<close>, which the library reads as zero.
\<close>

definition createAddOwnerTransaction ::
  "Provider \<Rightarrow> address \<Rightarrow> address \<Rightarrow> address \<Rightarrow> int \<Rightarrow> Call" where
  "createAddOwnerTransaction provider smartWalletAddress ownerAddress newOwnerAddress chainId =
     \<lparr>target = smartWalletAddress, val = 0, data = encode_addOwnerAddress newOwnerAddress\<rparr>"

definition createRemoveOwnerTransaction ::
  "Provider \<Rightarrow> address \<Rightarrow> address \<Rightarrow> int \<Rightarrow> bytes \<Rightarrow> int \<Rightarrow> error + Call" where
  "createRemoveOwnerTransaction provider smartWalletAddress ownerAddress ownerIndex ownerBytes
       chainId =
     (case encode_removeOwnerAtIndex ownerIndex ownerBytes of
        Inl e \<Rightarrow> Inl e
      | Inr d \<Rightarrow> Inr \<lparr>target = smartWalletAddress, val = 0, data = d\<rparr>)"

section \<open>Assembling a transaction (coinbase-smart-wallet.ts)\<close>

text \<open>\<open>isOwner\<close>: any error of the query is caught and answered with \<open>false\<close>.\<close>

definition isOwner :: "Provider \<Rightarrow> address \<Rightarrow> address \<Rightarrow> bool io" where
  "isOwner provider smartWalletAddress ownerAddress =
     io_catch
       (await (IsOwnerAddress smartWalletAddress ownerAddress)
          (isOwnerAddress provider smartWalletAddress ownerAddress))
       (\<lambda>error. io_return False)"

text \<open>
  \<open>encodeExecuteCall\<close>: \<open>execute(address target, uint256 value, bytes data)\<close>. The
  library rejects a value outside \<open>uint256\<close>.
\<close>

definition abi_execute :: "Call \<Rightarrow> bytes" where
  "abi_execute c =
     sel_execute @ abi_address (target c) @ abi_word (nat (val c)) @ abi_word 96
     @ abi_bytes (data c)"

definition encodeExecuteCall :: "Call \<Rightarrow> error + bytes" where
  "encodeExecuteCall c = (if uint256_ok (val c) then Inr (abi_execute c) else Inl LibraryError)"

text \<open>
  \<open>encodeExecuteBatchCall\<close>: \<open>executeBatch((address,uint256,bytes)[] calls)\<close>. The array
  is dynamic: its length, then one offset per element, then the elements, each a tuple
  of two static words, the offset 96 and the \<open>bytes\<close>.
\<close>

definition abi_call_tuple :: "Call \<Rightarrow> bytes" where
  "abi_call_tuple c =
     abi_address (target c) @ abi_word (nat (val c)) @ abi_word 96 @ abi_bytes (data c)"

fun abi_offsets :: "nat \<Rightarrow> bytes list \<Rightarrow> bytes" where
  "abi_offsets off [] = []"
| "abi_offsets off (e # es) = abi_word off @ abi_offsets (off + length e) es"

definition abi_dyn_array :: "bytes list \<Rightarrow> bytes" where
  "abi_dyn_array es = abi_word (length es) @ abi_offsets (32 * length es) es @ concat es"

definition abi_executeBatch :: "Call list \<Rightarrow> bytes" where
  "abi_executeBatch calls =
     sel_executeBatch @ abi_word 32 @ abi_dyn_array (map abi_call_tuple calls)"

definition encodeExecuteBatchCall :: "Call list \<Rightarrow> error + bytes" where
  "encodeExecuteBatchCall calls =
     (if list_all (\<lambda>c. uint256_ok (val c)) calls
      then Inr (abi_executeBatch calls)
      else Inl LibraryError)"

text \<open>
  \<open>decodeFunctionData('executeBatch', data)\<close> with the wallet ABI, reading every
  element: the offset of the array, its length, and for each element its offset behind
  the length word and the tuple found there. The source never calls it; it is the
  decoder that the wallet contract and any reader of the payload apply.
\<close>

definition decode_call_tuple :: "bytes \<Rightarrow> Call option" where
  "decode_call_tuple e =
     (case read_address e 0 of
        None \<Rightarrow> None
      | Some t \<Rightarrow>
          (case read_word e 32 of
             None \<Rightarrow> None
           | Some v \<Rightarrow>
               (case read_bytes e 64 of
                  None \<Rightarrow> None
                | Some b \<Rightarrow> Some \<lparr>target = t, val = int v, data = b\<rparr>)))"

fun decode_elements :: "bytes \<Rightarrow> nat \<Rightarrow> nat \<Rightarrow> Call list option" where
  "decode_elements base i 0 = Some []"
| "decode_elements base i (Suc k) =
     (case read_word base (32 * i) of
        None \<Rightarrow> None
      | Some off \<Rightarrow>
          if maxSafeInteger < off then None
          else (case decode_call_tuple (drop off base) of
                  None \<Rightarrow> None
                | Some c \<Rightarrow>
                    (case decode_elements base (Suc i) k of
                       None \<Rightarrow> None
                     | Some cs \<Rightarrow> Some (c # cs))))"

definition decode_executeBatch :: "bytes \<Rightarrow> Call list option" where
  "decode_executeBatch d =
     (if take 4 d \<noteq> sel_executeBatch then None
      else (case read_word (drop 4 d) 0 of
              None \<Rightarrow> None
            | Some off \<Rightarrow>
                if maxSafeInteger < off then None
                else (case read_word (drop off (drop 4 d)) 0 of
                        None \<Rightarrow> None
                      | Some n \<Rightarrow>
                          if maxSafeInteger < n then None
                          else decode_elements (drop 32 (drop off (drop 4 d))) 0 n)))"

text \<open>Lines 193--203 of \<open>createSmartWalletTransaction\<close>: the contract must exist.\<close>

definition checkContract :: "Provider \<Rightarrow> address \<Rightarrow> int \<Rightarrow> unit io" where
  "checkContract provider smartWalletAddress chainId =
     io_bind (await (GetCode smartWalletAddress) (getCode provider smartWalletAddress))
       (\<lambda>code.
          if code = []
          then io_throw (AccountNotDeployedError smartWalletAddress (chainName chainId))
          else io_return ())"

text \<open>Lines 206--216: the signer must be an owner.\<close>

definition verifyOwnership :: "Provider \<Rightarrow> address \<Rightarrow> address \<Rightarrow> unit io" where
  "verifyOwnership provider smartWalletAddress ownerAddress =
     io_bind (isOwner provider smartWalletAddress ownerAddress)
       (\<lambda>isOwnerResult.
          if \<not> isOwnerResult
          then io_throw (NotOwnerError ownerAddress smartWalletAddress)
          else io_return ())"

text \<open>\<open>provider.call({from: smartWalletAddress, to: call.target, data: call.data})\<close>\<close>

definition simulate :: "Provider \<Rightarrow> address \<Rightarrow> Call \<Rightarrow> unit io" where
  "simulate provider smartWalletAddress c =
     io_bind
       (await (Simulate smartWalletAddress (target c) (data c))
          (provider_call provider smartWalletAddress (target c) (data c)))
       (\<lambda>result. io_return ())"

text \<open>
  Lines 225--307: the branch for the selectors \<open>0x42842e0e\<close> and \<open>0x23b872dd\<close>. The
  mismatch of \<open>from\<close> only prints a warning. The outer \<open>catch\<close> rethrows what carries
  the marker of the source's own errors and swallows everything else.
\<close>

definition nftChecks :: "Provider \<Rightarrow> address \<Rightarrow> Call \<Rightarrow> unit io" where
  "nftChecks provider smartWalletAddress c =
     io_catch
       (case decode_transferFrom (data c) of
          None \<Rightarrow> io_throw LibraryError
        | Some (fromA, toA, tokenId) \<Rightarrow>
            io_bind
              (io_catch
                 (io_bind (await (OwnerOf (target c) tokenId) (ownerOf provider (target c) tokenId))
                    (\<lambda>owner.
                       if owner \<noteq> smartWalletAddress
                       then io_throw (NFTNotOwnedError owner smartWalletAddress)
                       else io_return ()))
                 (\<lambda>ownerError.
                    if includes_NON_possiede ownerError then io_throw ownerError
                    else io_throw (NFTOwnerUnverifiableError tokenId)))
              (\<lambda>u. io_catch (simulate provider smartWalletAddress c)
                      (\<lambda>testError. io_throw NFTSimulationFailedError)))
       (\<lambda>error. if includes_ERRORE error then io_throw error else io_return ())"

text \<open>Lines 310--394: the branch for the selector \<open>0xf242432a\<close>.\<close>

definition erc1155Checks :: "Provider \<Rightarrow> address \<Rightarrow> Call \<Rightarrow> unit io" where
  "erc1155Checks provider smartWalletAddress c =
     io_catch
       (case decode_safeTransferFrom1155 (data c) of
          None \<Rightarrow> io_throw LibraryError
        | Some (fromA, toA, tokenId, amount) \<Rightarrow>
            io_bind
              (io_catch
                 (io_bind
                    (await (BalanceOf1155 (target c) smartWalletAddress tokenId)
                       (balanceOf1155 provider (target c) smartWalletAddress tokenId))
                    (\<lambda>balance.
                       if balance < amount
                       then io_throw (MultiTokenInsufficientError balance amount smartWalletAddress)
                       else io_return ()))
                 (\<lambda>balanceError.
                    if includes_NON_possiede balanceError then io_throw balanceError
                    else io_throw (MultiTokenUnverifiableError tokenId)))
              (\<lambda>u. io_catch (simulate provider smartWalletAddress c)
                      (\<lambda>testError. io_throw MultiTokenSimulationFailedError)))
       (\<lambda>error. if includes_ERRORE error then io_throw error else io_return ())"

text \<open>
  Lines 397--489: the branch for the selector \<open>0xa9059cbb\<close>. Balance, symbol and
  decimals are queried first, each with its own fallback; the payload is decoded after
  them.
\<close>

definition erc20Checks :: "Provider \<Rightarrow> address \<Rightarrow> Call \<Rightarrow> unit io" where
  "erc20Checks provider smartWalletAddress c =
     io_catch
       (io_bind
          (io_catch
             (await (BalanceOf (target c) smartWalletAddress)
                (balanceOf provider (target c) smartWalletAddress))
             (\<lambda>e. io_return 0))
          (\<lambda>tokenBalance.
       io_bind
          (io_catch (await (Symbol (target c)) (symbol provider (target c)))
             (\<lambda>e. io_return ''UNKNOWN''))
          (\<lambda>tokenSymbol.
       io_bind
          (io_catch (await (Decimals (target c)) (decimals provider (target c)))
             (\<lambda>e. io_return 18))
          (\<lambda>tokenDecimals.
       (case decode_transfer (data c) of
          None \<Rightarrow> io_throw LibraryError
        | Some (recipient, transferAmount) \<Rightarrow>
            if tokenBalance < transferAmount
            then io_throw
                   (InsufficientTokenBalanceError tokenBalance transferAmount tokenSymbol
                      tokenDecimals)
            else io_catch (simulate provider smartWalletAddress c)
                   (\<lambda>testError. io_throw (TokenSimulationFailedError tokenSymbol)))))))
       (\<lambda>error.
          if includes_Balance_insufficiente error \<or> includes_ERRORE_CRITICO error
          then io_throw error
          else io_return ())"

text \<open>Lines 220--490: the pre-flight checks, chosen by the selector of the payload.\<close>

definition preflightChecks :: "Provider \<Rightarrow> address \<Rightarrow> Call \<Rightarrow> unit io" where
  "preflightChecks provider smartWalletAddress c =
     (if target c \<noteq> smartWalletAddress \<and> data c \<noteq> []
      then (let selector = take 4 (data c)
            in if selector = sel_safeTransferFrom \<or> selector = sel_transferFrom
               then nftChecks provider smartWalletAddress c
               else if selector = sel_safeTransferFrom1155
               then erc1155Checks provider smartWalletAddress c
               else if selector = sel_transfer
               then erc20Checks provider smartWalletAddress c
               else io_return ())
      else io_return ())"

text \<open>\<open>feeData.maxFeePerGas || 0n\<close>\<close>

definition feeOrZero :: "nat option \<Rightarrow> nat" where
  "feeOrZero f = (case f of None \<Rightarrow> 0 | Some v \<Rightarrow> v)"

text \<open>
  Lines 492--567: encode, fetch nonce and fees together, estimate gas with the 50 per
  cent buffer (a failed estimate is an error), check the owner's balance, build the
  request.
\<close>

definition assembleExecute ::
  "Provider \<Rightarrow> address \<Rightarrow> address \<Rightarrow> Call \<Rightarrow> int \<Rightarrow> TransactionRequest io" where
  "assembleExecute provider smartWalletAddress ownerAddress c chainId =
     io_bind (lift (encodeExecuteCall c))
       (\<lambda>d.
     io_bind
       (promise_all2
          (await (GetTransactionCount ownerAddress) (getTransactionCount provider ownerAddress))
          (await GetFeeData (getFeeData provider)))
       (\<lambda>(nonce, feeData).
     io_bind
       (io_catch
          (io_bind
             (await (EstimateGas ownerAddress smartWalletAddress d)
                (estimateGas provider ownerAddress smartWalletAddress d 0))
             (\<lambda>estimate. io_return (estimate * 150 div 100)))
          (\<lambda>error. io_throw GasEstimationFailedError))
       (\<lambda>gasLimit.
     io_bind (await (GetBalance ownerAddress) (getBalance provider ownerAddress))
       (\<lambda>ownerBalance.
          let maxCost = gasLimit * feeOrZero (maxFeePerGas feeData)
          in if ownerBalance < maxCost
             then io_throw (InsufficientGasFundsError maxCost ownerBalance)
             else io_return
                    \<lparr>tx_to = smartWalletAddress, tx_value = 0, tx_data = d,
                     tx_nonce = nonce, tx_chainId = chainId, tx_type = 2,
                     tx_maxFeePerGas = maxFeePerGas feeData,
                     tx_maxPriorityFeePerGas = maxPriorityFeePerGas feeData,
                     tx_gasLimit = gasLimit\<rparr>))))"

definition createSmartWalletTransaction ::
  "Provider \<Rightarrow> address \<Rightarrow> address \<Rightarrow> Call \<Rightarrow> int \<Rightarrow> TransactionRequest io" where
  "createSmartWalletTransaction provider smartWalletAddress ownerAddress c chainId =
     io_bind (checkContract provider smartWalletAddress chainId)
       (\<lambda>u1.
     io_bind (verifyOwnership provider smartWalletAddress ownerAddress)
       (\<lambda>u2.
     io_bind (preflightChecks provider smartWalletAddress c)
       (\<lambda>u3. assembleExecute provider smartWalletAddress ownerAddress c chainId)))"

text \<open>
  \<open>createSmartWalletBatchTransaction\<close>, lines 573--629: no query of the contract code, no
  ownership check and no pre-flight; a failed gas estimate leaves the default of 300000.
\<close>

definition createSmartWalletBatchTransaction ::
  "Provider \<Rightarrow> address \<Rightarrow> address \<Rightarrow> Call list \<Rightarrow> int \<Rightarrow> TransactionRequest io" where
  "createSmartWalletBatchTransaction provider smartWalletAddress ownerAddress calls chainId =
     io_bind (lift (encodeExecuteBatchCall calls))
       (\<lambda>d.
     io_bind
       (promise_all2
          (await (GetTransactionCount ownerAddress) (getTransactionCount provider ownerAddress))
          (await GetFeeData (getFeeData provider)))
       (\<lambda>(nonce, feeData).
     io_bind
       (io_catch
          (io_bind
             (await (EstimateGas ownerAddress smartWalletAddress d)
                (estimateGas provider ownerAddress smartWalletAddress d 0))
             (\<lambda>estimate. io_return (estimate * 150 div 100)))
          (\<lambda>error. io_return 300000))
       (\<lambda>gasLimit.
     io_bind (await (GetBalance ownerAddress) (getBalance provider ownerAddress))
       (\<lambda>ownerBalance.
          let maxCost = gasLimit * feeOrZero (maxFeePerGas feeData)
          in if ownerBalance < maxCost
             then io_throw (InsufficientGasFundsError maxCost ownerBalance)
             else io_return
                    \<lparr>tx_to = smartWalletAddress, tx_value = 0, tx_data = d,
                     tx_nonce = nonce, tx_chainId = chainId, tx_type = 2,
                     tx_maxFeePerGas = maxFeePerGas feeData,
                     tx_maxPriorityFeePerGas = maxPriorityFeePerGas feeData,
                     tx_gasLimit = gasLimit\<rparr>))))"

section \<open>ENS transfers (ens-manager.ts)\<close>

definition REGISTRY :: address where
  "REGISTRY = 0x00000000000C2E074eC69A0dFb2997BA6C7d2e1e"

definition BASE_REGISTRAR :: address where
  "BASE_REGISTRAR = 0x57f1887a8BF19b14fC0dF6Fd9B2acc9Af147eA85"

definition PUBLIC_RESOLVER :: address where
  "PUBLIC_RESOLVER = 0x231b0Ee14048e9dCcD1d247744d114a4EB5E8E63"

definition NAME_WRAPPER :: address where
  "NAME_WRAPPER = 0xD4416b13d2b3a9aBae7AcD5D6C2BbDBE25686401"

definition ZeroAddress :: address where
  "ZeroAddress = 0"

definition isENSContract :: "address \<Rightarrow> bool" where
  "isENSContract contractAddress \<longleftrightarrow>
     contractAddress = BASE_REGISTRAR \<or> contractAddress = NAME_WRAPPER"

definition isWrappedENS :: "address \<Rightarrow> bool" where
  "isWrappedENS contractAddress \<longleftrightarrow> contractAddress = NAME_WRAPPER"

text \<open>
  \<open>tokenIdToNamehash\<close>: the hash of the namehash of \<open>.eth\<close> followed by the token id as
  32 bytes. \<open>toBeHex\<close> rejects a negative id and \<open>zeroPadValue\<close> one of more than 32
  bytes. The hash function of the library is a parameter.
\<close>

definition ethNamehash :: bytes where
  "ethNamehash =
     be_bytes 32 0x93cdeb708b7545dc668eb9280176169d1c33cfd8ed6f04690a0bcc88a93fc4ae"

definition tokenIdToNamehash :: "(bytes \<Rightarrow> bytes32) \<Rightarrow> int \<Rightarrow> error + bytes32" where
  "tokenIdToNamehash keccak256 tokenId =
     (if uint256_ok tokenId
      then Inr (keccak256 (ethNamehash @ be_bytes 32 (nat tokenId)))
      else Inl LibraryError)"

text \<open>
  \<open>getENSInfo\<close>: nothing is queried for a wrapped name; otherwise token owner, registry
  owner and resolver are queried together and the address record only from a non-zero
  resolver, where a failure is tolerated.
\<close>

definition getENSInfo ::
  "(bytes \<Rightarrow> bytes32) \<Rightarrow> Provider \<Rightarrow> int \<Rightarrow> bool \<Rightarrow> ENSInfo io" where
  "getENSInfo keccak256 provider tokenId isWrapped =
     (if isWrapped
      then io_return
             \<lparr>tokenOwner = None, registryOwner = None, ethRecord = None, resolver = None\<rparr>
      else
        io_bind (lift (tokenIdToNamehash keccak256 tokenId))
          (\<lambda>namehash.
        io_bind
          (promise_all3
             (await (OwnerOf BASE_REGISTRAR (nat tokenId))
                (ownerOf provider BASE_REGISTRAR (nat tokenId)))
             (await (RegistryOwner namehash) (registry_owner provider namehash))
             (await (RegistryResolver namehash) (registry_resolver provider namehash)))
          (\<lambda>(tokenOwnerA, registryOwnerA, resolverAddress).
        io_bind
          (if resolverAddress \<noteq> ZeroAddress
           then io_catch
                  (io_bind
                     (await (ResolverAddr resolverAddress namehash)
                        (resolver_addr provider resolverAddress namehash))
                     (\<lambda>a. io_return (Some a)))
                  (\<lambda>e. io_return None)
           else io_return None)
          (\<lambda>ethRecordA.
             io_return
               \<lparr>tokenOwner = Some tokenOwnerA, registryOwner = Some registryOwnerA,
                ethRecord = ethRecordA, resolver = Some resolverAddress\<rparr>))))"

text \<open>
  \<open>createENSTransferCalls\<close>: one ERC-1155 transfer of amount 1 for a wrapped name;
  otherwise the resolver update (only with a resolver that is set and not zero), the
  registry update and the token transfer, pushed in this order.
\<close>

definition createENSTransferCalls ::
  "(bytes \<Rightarrow> bytes32) \<Rightarrow> address \<Rightarrow> int \<Rightarrow> address \<Rightarrow> address \<Rightarrow> ENSInfo
     \<Rightarrow> error + Call list" where
  "createENSTransferCalls keccak256 contractAddress tokenId currentOwner newOwner ensInfo =
     (if isWrappedENS contractAddress
      then (case encode_safeTransferFrom1155 currentOwner newOwner tokenId 1 [] of
              Inl e \<Rightarrow> Inl e
            | Inr d \<Rightarrow> Inr [\<lparr>target = NAME_WRAPPER, val = 0, data = d\<rparr>])
      else (case tokenIdToNamehash keccak256 tokenId of
              Inl e \<Rightarrow> Inl e
            | Inr namehash \<Rightarrow>
                (case encode_safeTransferFrom currentOwner newOwner tokenId of
                   Inl e \<Rightarrow> Inl e
                 | Inr d \<Rightarrow>
                     Inr ((case resolver ensInfo of
                             None \<Rightarrow> []
                           | Some r \<Rightarrow>
                               if r \<noteq> ZeroAddress
                               then [\<lparr>target = r, val = 0,
                                      data = encode_setAddr namehash newOwner\<rparr>]
                               else [])
                          @ [\<lparr>target = REGISTRY, val = 0,
                               data = encode_setOwner namehash newOwner\<rparr>]
                          @ [\<lparr>target = BASE_REGISTRAR, val = 0, data = d\<rparr>]))))"

definition getENSTransferSteps :: "bool \<Rightarrow> string list" where
  "getENSTransferSteps isWrapped =
     (if isWrapped then [''Transfer Wrapped ENS Token'']
      else [''Update ETH Record'', ''Update Manager (Registry)'',
            ''Transfer NFT Token (Owner)''])"

section \<open>NFT transfers (nft-manager.ts)\<close>

text \<open>The token id arrives as a decimal string; the model takes the number it denotes.\<close>

definition createNFTTransferCall :: "address \<Rightarrow> address \<Rightarrow> address \<Rightarrow> int \<Rightarrow> error + Call" where
  "createNFTTransferCall nftContractAddress fromAddress toAddress tokenId =
     (if isWrappedENS nftContractAddress
      then (case encode_safeTransferFrom1155 fromAddress toAddress tokenId 1 [] of
              Inl e \<Rightarrow> Inl e
            | Inr d \<Rightarrow> Inr \<lparr>target = nftContractAddress, val = 0, data = d\<rparr>)
      else (case encode_safeTransferFrom fromAddress toAddress tokenId of
              Inl e \<Rightarrow> Inl e
            | Inr d \<Rightarrow> Inr \<lparr>target = nftContractAddress, val = 0, data = d\<rparr>))"

text \<open>
  \<open>createNFTTransferTransaction\<close>: an ENS plan of exactly one call goes through
  \<open>createSmartWalletTransaction\<close>, any other ENS plan through
  \<open>createSmartWalletBatchTransaction\<close>; every other collection is a single call.
\<close>

definition createNFTTransferTransaction ::
  "(bytes \<Rightarrow> bytes32) \<Rightarrow> Provider \<Rightarrow> address \<Rightarrow> address \<Rightarrow> address \<Rightarrow> address \<Rightarrow> int \<Rightarrow> int
     \<Rightarrow> TransactionRequest io" where
  "createNFTTransferTransaction keccak256 provider smartWalletAddress ownerAddress
       nftContractAddress toAddress tokenId chainId =
     (if isENSContract nftContractAddress
      then (let isWrapped = isWrappedENS nftContractAddress
            in io_bind (getENSInfo keccak256 provider tokenId isWrapped)
                 (\<lambda>ensInfo.
               io_bind
                 (lift (createENSTransferCalls keccak256 nftContractAddress tokenId
                          smartWalletAddress toAddress ensInfo))
                 (\<lambda>calls.
                    if length calls = 1
                    then createSmartWalletTransaction provider smartWalletAddress ownerAddress
                           (calls ! 0) chainId
                    else createSmartWalletBatchTransaction provider smartWalletAddress
                           ownerAddress calls chainId)))
      else io_bind
             (lift (createNFTTransferCall nftContractAddress smartWalletAddress toAddress
                      tokenId))
             (\<lambda>c. createSmartWalletTransaction provider smartWalletAddress ownerAddress c
                    chainId))"

section \<open>Scenarios\<close>

text \<open>
  A chain on which every query succeeds: the wallet is deployed, the card is its owner
  and holds one ether, the fee is 30 gwei and every estimate is 100000 gas. The other
  scenarios change one answer of this chain. The hash function of the scenarios is a
  stand-in; every general statement below holds for any hash function.
\<close>

definition wallet :: address where
  "wallet = 0x1000000000000000000000000000000000000001"

definition burner :: address where
  "burner = 0x2000000000000000000000000000000000000002"

definition friend :: address where
  "friend = 0x3000000000000000000000000000000000000003"

definition token :: address where
  "token = 0x4000000000000000000000000000000000000004"

definition hash_stub :: "bytes \<Rightarrow> bytes32" where
  "hash_stub b = of_nat (length b)"

definition healthy :: Provider where
  "healthy =
     \<lparr>getCode = (\<lambda>a. Some [0x60, 0x80]),
      getBalance = (\<lambda>a. Some 1000000000000000000),
      getTransactionCount = (\<lambda>a. Some 7),
      getFeeData = Some \<lparr>maxFeePerGas = Some 30000000000,
                          maxPriorityFeePerGas = Some 1000000000\<rparr>,
      estimateGas = (\<lambda>f t d v. Some 100000),
      provider_call = (\<lambda>f t d. Some []),
      isOwnerAddress = (\<lambda>w a. Some True),
      ownerOf = (\<lambda>c t. Some wallet),
      balanceOf = (\<lambda>c a. Some 1000),
      balanceOf1155 = (\<lambda>c a t. Some 1),
      symbol = (\<lambda>c. Some ''TKN''),
      decimals = (\<lambda>c. Some 18),
      registry_owner = (\<lambda>n. Some wallet),
      registry_resolver = (\<lambda>n. Some PUBLIC_RESOLVER),
      resolver_addr = (\<lambda>r n. Some wallet)\<rparr>"

text \<open>
  Scenario B of the specification: no code at the address of the wallet, so that its
  owner query cannot be answered either.
\<close>

definition undeployed :: Provider where
  "undeployed =
     healthy\<lparr>getCode := (\<lambda>a. if a = wallet then Some [] else Some [0x60, 0x80]),
              isOwnerAddress := (\<lambda>w a. if w = wallet then None else Some True)\<rparr>"

text \<open>Scenario E: every gas estimate is rejected.\<close>

definition reverting :: Provider where
  "reverting = healthy\<lparr>estimateGas := (\<lambda>f t d v. None)\<rparr>"

text \<open>The wallet answers that the card is not an owner; the owner query fails.\<close>

definition foreign :: Provider where
  "foreign = healthy\<lparr>isOwnerAddress := (\<lambda>w a. Some False)\<rparr>"

definition offline_owner_query :: Provider where
  "offline_owner_query = healthy\<lparr>isOwnerAddress := (\<lambda>w a. None)\<rparr>"

text \<open>The card holds a thousand wei only.\<close>

definition poor :: Provider where
  "poor = healthy\<lparr>getBalance := (\<lambda>a. Some 1000)\<rparr>"

text \<open>A token transfer whose payload stops after the selector.\<close>

definition truncated_transfer :: Call where
  "truncated_transfer = \<lparr>target = token, val = 0, data = sel_transfer\<rparr>"

text \<open>A well-formed transfer of five token units to the friend, and a plan of two.\<close>

definition transfer_call :: Call where
  "transfer_call =
     \<lparr>target = token, val = 0, data = sel_transfer @ abi_address friend @ abi_word 5\<rparr>"

definition two_transfers :: "Call list" where
  "two_transfers = [transfer_call, transfer_call]"

text \<open>
  The request that the nonce and the fees of the healthy chain give for a payload and a
  gas limit.
\<close>

definition request :: "bytes \<Rightarrow> nat \<Rightarrow> TransactionRequest" where
  "request d gl =
     \<lparr>tx_to = wallet, tx_value = 0, tx_data = d, tx_nonce = 7, tx_chainId = 1, tx_type = 2,
      tx_maxFeePerGas = Some 30000000000, tx_maxPriorityFeePerGas = Some 1000000000,
      tx_gasLimit = gl\<rparr>"

text \<open>The unwrapped name with token id 5, its node and the plan that moves it to the friend.\<close>

definition ens_node :: bytes32 where
  "ens_node = hash_stub (ethNamehash @ be_bytes 32 5)"

definition ens_plan :: "Call list" where
  "ens_plan =
     [\<lparr>target = PUBLIC_RESOLVER, val = 0, data = encode_setAddr ens_node friend\<rparr>,
      \<lparr>target = REGISTRY, val = 0, data = encode_setOwner ens_node friend\<rparr>,
      \<lparr>target = BASE_REGISTRAR, val = 0,
        data = sel_safeTransferFrom @ abi_address wallet @ abi_address friend @ abi_word 5\<rparr>]"

definition ens_info :: ENSInfo where
  "ens_info =
     \<lparr>tokenOwner = Some wallet, registryOwner = Some wallet, ethRecord = Some wallet,
      resolver = Some PUBLIC_RESOLVER\<rparr>"

section \<open>Properties of the byte encoding\<close>

lemma length_be_bytes [simp]: "length (be_bytes n v) = n"
  by (induction n arbitrary: v) simp_all

lemma be_nat_snoc: "be_nat (bs @ [b]) = be_nat bs * 256 + unat b"
  by (simp add: be_nat_def)

lemma be_nat_be_bytes: "v < 256 ^ n \<Longrightarrow> be_nat (be_bytes n v) = v"
proof (induction n arbitrary: v)
  case 0
  then show ?case by (simp add: be_nat_def)
next
  case (Suc n)
  from Suc.prems have "v div 256 < 256 ^ n"
    by (simp add: less_mult_imp_div_less mult.commute)
  then have "be_nat (be_bytes n (v div 256)) = v div 256"
    by (rule Suc.IH)
  then show ?case
    by (simp add: be_nat_snoc unat_of_nat)
qed

lemma length_abi_word [simp]: "length (abi_word v) = 32"
  by (simp add: abi_word_def)

lemma length_abi_address [simp]: "length (abi_address a) = 32"
  by (simp add: abi_address_def)

lemma length_abi_bytes32 [simp]: "length (abi_bytes32 h) = 32"
  by (simp add: abi_bytes32_def)

lemma be_nat_abi_word: "v < 2 ^ 256 \<Longrightarrow> be_nat (abi_word v) = v"
proof -
  assume "v < 2 ^ 256"
  moreover have "(2::nat) ^ 256 = 256 ^ 32" by simp
  ultimately have "v < 256 ^ 32" by simp
  then show ?thesis unfolding abi_word_def by (rule be_nat_be_bytes)
qed

lemma read_word_at:
  assumes "length xs = off" and "v < 2 ^ 256"
  shows "read_word (xs @ abi_word v @ ys) off = Some v"
  using assms by (simp add: read_word_def be_nat_abi_word)

lemma read_address_at:
  assumes "length xs = off"
  shows "read_address (xs @ abi_address a @ ys) off = Some a"
proof -
  have lt: "unat a < 2 ^ 160"
    using unsigned_less [of a, where ?'a = nat] by simp
  have "(2::nat) ^ 160 < 2 ^ 256" by simp
  with lt have "unat a < 2 ^ 256" by (rule less_trans)
  then have "read_word (xs @ abi_word (unat a) @ ys) off = Some (unat a)"
    using assms by (intro read_word_at)
  with lt show ?thesis
    by (simp add: read_address_def abi_address_def)
qed

lemma read_bytes_at:
  assumes "length xs = off" and "length hs = p" and "p \<le> maxSafeInteger"
    and "length b \<le> maxSafeInteger" and hs: "hs = xs @ abi_word p @ mid"
  shows "read_bytes (hs @ abi_bytes b @ ys) off = Some b"
proof -
  have small: "(9007199254740991::nat) < 2 ^ 256" by simp
  have p256: "p < 2 ^ 256" and n256: "length b < 2 ^ 256"
    using assms(3,4) small by (simp_all add: maxSafeInteger_def)
  have w1: "read_word (hs @ abi_bytes b @ ys) off = Some p"
    unfolding hs using assms(1) p256 by (simp add: read_word_at)
  have w2: "read_word (hs @ abi_bytes b @ ys) p = Some (length b)"
    unfolding abi_bytes_def using assms(2) n256 by (simp add: read_word_at)
  have len: "p + 32 + length b + padding (length b) \<le> length (hs @ abi_bytes b @ ys)"
    using assms(2) by (simp add: abi_bytes_def)
  have cut: "take (length b) (drop (p + 32) (hs @ abi_bytes b @ ys)) = b"
    using assms(2) by (simp add: abi_bytes_def)
  show ?thesis
    unfolding read_bytes_def using w1 w2 len cut assms(3,4) by simp
qed

lemma skip_bytes_at:
  assumes "length xs = off" and "length hs = p" and "p \<le> maxSafeInteger"
    and "length b \<le> maxSafeInteger" and hs: "hs = xs @ abi_word p @ mid"
  shows "skip_bytes (hs @ abi_bytes b @ ys) off"
proof -
  have small: "(9007199254740991::nat) < 2 ^ 256" by simp
  have p256: "p < 2 ^ 256" and n256: "length b < 2 ^ 256"
    using assms(3,4) small by (simp_all add: maxSafeInteger_def)
  have w1: "read_word (hs @ abi_bytes b @ ys) off = Some p"
    unfolding hs using assms(1) p256 by (simp add: read_word_at)
  have w2: "read_word (hs @ abi_bytes b @ ys) p = Some (length b)"
    unfolding abi_bytes_def using assms(2) n256 by (simp add: read_word_at)
  have len: "p + 32 + length b + padding (length b) \<le> length (hs @ abi_bytes b @ ys)"
    using assms(2) by (simp add: abi_bytes_def)
  show ?thesis
    unfolding skip_bytes_def using w1 w2 len assms(3) by simp
qed

lemma decode_transfer_encoded:
  assumes "v < 2 ^ 256"
  shows "decode_transfer (sel_transfer @ abi_address r @ abi_word v) = Some (r, v)"
proof -
  have r1: "read_address (abi_address r @ abi_word v) 0 = Some r"
    using read_address_at [of "[]" 0 r "abi_word v"] by simp
  have r2: "read_word (abi_address r @ abi_word v) 32 = Some v"
    using read_word_at [of "abi_address r" 32 v "[]"] assms by simp
  show ?thesis
    using r1 r2 by (simp add: decode_transfer_def sel_transfer_def)
qed

lemma decode_safeTransferFrom1155_encoded:
  assumes "t < 2 ^ 256" and "m < 2 ^ 256" and "length b \<le> maxSafeInteger"
  shows "decode_safeTransferFrom1155
           (sel_safeTransferFrom1155 @ abi_address f @ abi_address r @ abi_word t @ abi_word m
            @ abi_word 160 @ abi_bytes b)
         = Some (f, r, t, m)"
proof -
  let ?rest = "abi_address r @ abi_word t @ abi_word m @ abi_word 160 @ abi_bytes b"
  let ?args = "abi_address f @ ?rest"
  have r1: "read_address ?args 0 = Some f"
    using read_address_at [of "[]" 0 f ?rest] by simp
  have r2: "read_address ?args 32 = Some r"
    using read_address_at [of "abi_address f" 32 r "abi_word t @ abi_word m @ abi_word 160 @ abi_bytes b"]
    by simp
  have r3: "read_word ?args 64 = Some t"
    using read_word_at [of "abi_address f @ abi_address r" 64 t
        "abi_word m @ abi_word 160 @ abi_bytes b"] assms(1)
    by simp
  have r4: "read_word ?args 96 = Some m"
    using read_word_at [of "abi_address f @ abi_address r @ abi_word t" 96 m
        "abi_word 160 @ abi_bytes b"] assms(2)
    by simp
  have "skip_bytes ((abi_address f @ abi_address r @ abi_word t @ abi_word m @ abi_word 160)
          @ abi_bytes b @ []) 128"
    by (rule skip_bytes_at [where xs = "abi_address f @ abi_address r @ abi_word t @ abi_word m"
          and p = 160 and mid = "[]"])
       (use assms(3) in \<open>simp_all add: maxSafeInteger_def\<close>)
  then have r5: "skip_bytes ?args 128" by simp
  show ?thesis
    using r1 r2 r3 r4 r5 by (simp add: decode_safeTransferFrom1155_def sel_safeTransferFrom1155_def)
qed

lemmas selector_defs = sel_transfer_def sel_transferFrom_def sel_safeTransferFrom_def
  sel_safeTransferFrom1155_def sel_execute_def sel_executeBatch_def

lemma selectors_distinct:
  "sel_transfer \<noteq> sel_safeTransferFrom" "sel_transfer \<noteq> sel_transferFrom"
  "sel_transfer \<noteq> sel_safeTransferFrom1155" "sel_safeTransferFrom1155 \<noteq> sel_safeTransferFrom"
  "sel_safeTransferFrom1155 \<noteq> sel_transferFrom" "sel_safeTransferFrom \<noteq> sel_transferFrom"
  "sel_transfer \<noteq> []" "sel_safeTransferFrom \<noteq> []" "sel_transferFrom \<noteq> []"
  "sel_safeTransferFrom1155 \<noteq> []"
  by (simp_all add: selector_defs)

text \<open>
  Decoding an \<open>executeBatch\<close> payload returns the calls that were encoded, for
  values within \<open>uint256\<close> and a payload of a length that is a safe integer. The
  plan of an unwrapped ENS transfer always meets both conditions.
\<close>

lemma length_abi_offsets [simp]: "length (abi_offsets off es) = 32 * length es"
  by (induction es arbitrary: off) simp_all

lemma length_abi_bytes: "length (abi_bytes b) = 32 + length b + padding (length b)"
  by (simp add: abi_bytes_def)

lemma abi_offsets_append:
  "abi_offsets off (xs @ ys) = abi_offsets off xs @ abi_offsets (off + length (concat xs)) ys"
  by (induction xs arbitrary: off) (simp_all add: add.assoc)

lemma safe_lt_256: "n \<le> maxSafeInteger \<Longrightarrow> n < 2 ^ 256"
proof -
  assume "n \<le> maxSafeInteger"
  moreover have "maxSafeInteger < 2 ^ 256" by (simp add: maxSafeInteger_def)
  ultimately show ?thesis by (rule le_less_trans)
qed

lemma decode_call_tuple_encoded:
  assumes "uint256_ok (val c)" and "length (data c) \<le> maxSafeInteger"
  shows "decode_call_tuple (abi_call_tuple c @ rest) = Some (c :: Call)"
proof -
  let ?t = "abi_address (target c)" and ?v = "abi_word (nat (val c))"
  have lt: "nat (val c) < 2 ^ 256"
    using assms(1) by (simp add: uint256_ok_def nat_less_iff)
  have eq: "abi_call_tuple c @ rest = (?t @ ?v @ abi_word 96) @ abi_bytes (data c) @ rest"
    by (simp add: abi_call_tuple_def)
  have r1: "read_address (abi_call_tuple c @ rest) 0 = Some (target c)"
    using read_address_at [of "[]" 0 "target c" "?v @ abi_word 96 @ abi_bytes (data c) @ rest"]
    by (simp add: abi_call_tuple_def)
  have r2: "read_word (abi_call_tuple c @ rest) 32 = Some (nat (val c))"
    using read_word_at [of ?t 32 "nat (val c)" "abi_word 96 @ abi_bytes (data c) @ rest"] lt
    by (simp add: abi_call_tuple_def)
  have "read_bytes ((?t @ ?v @ abi_word 96) @ abi_bytes (data c) @ rest) 64 = Some (data c)"
    by (rule read_bytes_at [where xs = "?t @ ?v" and p = 96 and mid = "[]"])
       (use assms(2) in \<open>simp_all add: maxSafeInteger_def\<close>)
  then have r3: "read_bytes (abi_call_tuple c @ rest) 64 = Some (data c)"
    by (simp only: eq)
  have v: "int (nat (val c)) = val c"
    using assms(1) by (simp add: uint256_ok_def)
  show ?thesis
    unfolding decode_call_tuple_def using r1 r2 r3 v by simp
qed

lemma decode_elements_encoded:
  assumes calls: "calls = pre @ cs"
    and ok: "list_all (\<lambda>c. uint256_ok (val c)) calls"
    and base: "base = abi_offsets (32 * length calls) (map abi_call_tuple calls)
                      @ concat (map abi_call_tuple calls)"
    and small: "length base \<le> maxSafeInteger"
  shows "decode_elements base (length pre) (length cs) = Some cs"
  using calls
proof (induction cs arbitrary: pre)
  case Nil
  then show ?case by simp
next
  case (Cons c cs)
  let ?n = "length calls"
  let ?ps = "map abi_call_tuple pre" and ?rs = "map abi_call_tuple cs"
  let ?o = "32 * ?n + length (concat ?ps)"
  have split: "calls = pre @ c # cs" by (rule Cons.prems)
  have heads: "abi_offsets (32 * ?n) (map abi_call_tuple calls)
               = abi_offsets (32 * ?n) ?ps @ abi_word ?o
                 @ abi_offsets (?o + length (abi_call_tuple c)) ?rs"
    by (subst (2) split) (simp add: abi_offsets_append)
  have body: "concat (map abi_call_tuple calls) = concat ?ps @ abi_call_tuple c @ concat ?rs"
    by (subst split) simp
  have len_heads: "length (abi_offsets (32 * ?n) (map abi_call_tuple calls)) = 32 * ?n"
    by simp
  have o_le: "?o + length (abi_call_tuple c) \<le> length base"
    unfolding base by (simp add: body)
  then have o_safe: "?o \<le> maxSafeInteger" using small by simp
  have o256: "?o < 2 ^ 256" using o_safe by (rule safe_lt_256)
  have rd: "read_word base (32 * length pre) = Some ?o"
    unfolding base heads
    using read_word_at [of "abi_offsets (32 * ?n) ?ps" "32 * length pre" ?o
        "abi_offsets (?o + length (abi_call_tuple c)) ?rs @ concat (map abi_call_tuple calls)"]
      o256
    by simp
  have dr: "drop ?o base = abi_call_tuple c @ concat ?rs"
    unfolding base body using len_heads by simp
  have dlen: "length (data c) \<le> length (abi_call_tuple c)"
    by (simp add: abi_call_tuple_def length_abi_bytes)
  with o_le small have dsafe: "length (data c) \<le> maxSafeInteger" by simp
  have cok: "uint256_ok (val c)" using ok unfolding split by simp
  have tup: "decode_call_tuple (drop ?o base) = Some c"
    unfolding dr using cok dsafe by (rule decode_call_tuple_encoded)
  have "calls = (pre @ [c]) @ cs" using split by simp
  then have "decode_elements base (length (pre @ [c])) (length cs) = Some cs"
    by (rule Cons.IH)
  then have ih: "decode_elements base (Suc (length pre)) (length cs) = Some cs" by simp
  show ?case
    using rd o_safe tup ih by simp
qed

lemma executeBatch_roundtrip:
  assumes ok: "list_all (\<lambda>c. uint256_ok (val c)) calls"
    and small: "length (abi_executeBatch calls) \<le> maxSafeInteger"
  shows "decode_executeBatch (abi_executeBatch calls) = Some calls"
proof -
  let ?es = "map abi_call_tuple calls"
  let ?base = "abi_offsets (32 * length calls) ?es @ concat ?es"
  have bl: "length ?base \<le> maxSafeInteger"
    using small by (simp add: abi_executeBatch_def abi_dyn_array_def)
  have nl: "length calls \<le> length ?base" by simp
  with bl have nsafe: "length calls \<le> maxSafeInteger" by simp
  then have n256: "length calls < 2 ^ 256" by (rule safe_lt_256)
  have sel: "take 4 (abi_executeBatch calls) = sel_executeBatch"
    by (simp add: abi_executeBatch_def sel_executeBatch_def)
  have d4: "drop 4 (abi_executeBatch calls) = abi_word 32 @ abi_dyn_array ?es"
    by (simp add: abi_executeBatch_def sel_executeBatch_def)
  have r1: "read_word (abi_word 32 @ abi_dyn_array ?es) 0 = Some 32"
    using read_word_at [of "[]" 0 32 "abi_dyn_array ?es"] by simp
  have d32: "drop 32 (abi_word 32 @ abi_dyn_array ?es) = abi_word (length calls) @ ?base"
    by (simp add: abi_dyn_array_def)
  have r2: "read_word (abi_word (length calls) @ ?base) 0 = Some (length calls)"
    using read_word_at [of "[]" 0 "length calls" ?base] n256 by simp
  have d64: "drop 32 (abi_word (length calls) @ ?base) = ?base" by simp
  have "decode_elements ?base (length ([] :: Call list)) (length calls) = Some calls"
    by (rule decode_elements_encoded [where calls = calls]) (use ok bl in simp_all)
  then have el0: "decode_elements ?base 0 (length calls) = Some calls" by simp
  have s32: "\<not> maxSafeInteger < 32" by (simp add: maxSafeInteger_def)
  show ?thesis
    unfolding decode_executeBatch_def
    using sel d4 r1 d32 r2 d64 el0 nsafe s32 by simp
qed

lemma unwrapped_plan_encodable:
  assumes "\<not> isWrappedENS nft"
    and "createENSTransferCalls keccak256 nft tokenId cur new info = Inr calls"
  shows "list_all (\<lambda>c. uint256_ok (val c)) calls
       \<and> length (abi_executeBatch calls) \<le> maxSafeInteger"
  using assms
  by (auto simp: createENSTransferCalls_def encode_safeTransferFrom_def encode_setAddr_def
      encode_setOwner_def tokenIdToNamehash_def uint256_ok_def abi_executeBatch_def
      abi_dyn_array_def abi_call_tuple_def length_abi_bytes padding_def maxSafeInteger_def
      sel_executeBatch_def sel_setAddr_def sel_setOwner_def sel_safeTransferFrom_def
      split: sum.splits option.splits if_splits)

section \<open>Properties of the request log and of the stages\<close>

lemmas io_defs = io_bind_def io_catch_def await_def lift_def promise_all2_def promise_all3_def
  io_return_def io_throw_def

lemma snd_io_bind_Inr:
  "snd (io_bind m f) = Inr y \<longleftrightarrow> (\<exists>x. snd m = Inr x \<and> snd (f x) = Inr y)"
  by (auto simp: io_bind_def split: sum.splits)

lemma snd_io_bind_Inl:
  "snd (io_bind m f) = Inl e \<longleftrightarrow> snd m = Inl e \<or> (\<exists>x. snd m = Inr x \<and> snd (f x) = Inl e)"
  by (auto simp: io_bind_def split: sum.splits)

lemma io_bind_unit: "snd m = Inr () \<Longrightarrow> snd (io_bind m f) = snd (f ())"
  by (simp add: io_bind_def)

lemma assembleExecute_estimate_fails:
  assumes "encodeExecuteCall c = Inr d" and "estimateGas provider owner sw d 0 = None"
    and "getTransactionCount provider owner = Some n" and "getFeeData provider = Some f"
  shows "assembleExecute provider sw owner c chainId
           = ([GetTransactionCount owner, GetFeeData, EstimateGas owner sw d],
              Inl GasEstimationFailedError)"
  using assms by (simp add: assembleExecute_def io_defs)

lemma assembleExecute_Inr:
  assumes "snd (assembleExecute provider sw owner c chainId) = Inr tx"
  shows "\<exists>d n f g bal.
           encodeExecuteCall c = Inr d \<and> getTransactionCount provider owner = Some n
         \<and> getFeeData provider = Some f \<and> estimateGas provider owner sw d 0 = Some g
         \<and> getBalance provider owner = Some bal
         \<and> g * 150 div 100 * feeOrZero (maxFeePerGas f) \<le> bal
         \<and> tx = \<lparr>tx_to = sw, tx_value = 0, tx_data = d, tx_nonce = n, tx_chainId = chainId,
                  tx_type = 2, tx_maxFeePerGas = maxFeePerGas f,
                  tx_maxPriorityFeePerGas = maxPriorityFeePerGas f,
                  tx_gasLimit = g * 150 div 100\<rparr>"
  using assms
  by (auto simp: assembleExecute_def io_defs Let_def
      split: sum.splits option.splits if_splits prod.splits)

lemma batch_Inr:
  assumes "snd (createSmartWalletBatchTransaction provider sw owner calls chainId) = Inr tx"
  shows "\<exists>d n f bal gl.
           encodeExecuteBatchCall calls = Inr d \<and> getTransactionCount provider owner = Some n
         \<and> getFeeData provider = Some f
         \<and> gl = (case estimateGas provider owner sw d 0 of
                    None \<Rightarrow> 300000 | Some g \<Rightarrow> g * 150 div 100)
         \<and> getBalance provider owner = Some bal
         \<and> gl * feeOrZero (maxFeePerGas f) \<le> bal
         \<and> tx = \<lparr>tx_to = sw, tx_value = 0, tx_data = d, tx_nonce = n, tx_chainId = chainId,
                  tx_type = 2, tx_maxFeePerGas = maxFeePerGas f,
                  tx_maxPriorityFeePerGas = maxPriorityFeePerGas f,
                  tx_gasLimit = gl\<rparr>"
  using assms
  by (auto simp: createSmartWalletBatchTransaction_def io_defs Let_def
      split: sum.splits option.splits if_splits prod.splits)

lemma single_Inr:
  assumes "snd (createSmartWalletTransaction provider sw owner c chainId) = Inr tx"
  shows "snd (assembleExecute provider sw owner c chainId) = Inr tx"
  using assms by (auto simp: createSmartWalletTransaction_def snd_io_bind_Inr)

lemma single_reaches_assembly:
  assumes "snd (checkContract provider sw chainId) = Inr ()"
    and "snd (verifyOwnership provider sw owner) = Inr ()"
    and "snd (preflightChecks provider sw c) = Inr ()"
  shows "snd (createSmartWalletTransaction provider sw owner c chainId)
           = snd (assembleExecute provider sw owner c chainId)"
  using assms by (simp add: createSmartWalletTransaction_def io_bind_unit)

lemma assembleExecute_funds:
  assumes "snd (assembleExecute provider sw owner c chainId) = Inl (InsufficientGasFundsError r a)"
  shows "getBalance provider owner = Some a \<and> a < r"
  using assms
  by (auto simp: assembleExecute_def encodeExecuteCall_def io_defs Let_def
      split: sum.splits option.splits if_splits prod.splits)

lemma batch_funds:
  assumes "snd (createSmartWalletBatchTransaction provider sw owner calls chainId)
             = Inl (InsufficientGasFundsError r a)"
  shows "getBalance provider owner = Some a \<and> a < r"
  using assms
  by (auto simp: createSmartWalletBatchTransaction_def encodeExecuteBatchCall_def io_defs Let_def
      split: sum.splits option.splits if_splits prod.splits)

lemma checkContract_no_funds_error:
  "snd (checkContract provider sw chainId) \<noteq> Inl (InsufficientGasFundsError r a)"
  by (auto simp: checkContract_def io_defs split: option.splits)

lemma verifyOwnership_no_funds_error:
  "snd (verifyOwnership provider sw owner) \<noteq> Inl (InsufficientGasFundsError r a)"
  by (auto simp: verifyOwnership_def isOwner_def io_defs split: option.splits)

lemma nftChecks_no_funds_error:
  "snd (nftChecks provider sw c) \<noteq> Inl (InsufficientGasFundsError r a)"
  by (auto simp: nftChecks_def simulate_def io_defs split: option.splits)

lemma erc1155Checks_no_funds_error:
  "snd (erc1155Checks provider sw c) \<noteq> Inl (InsufficientGasFundsError r a)"
  by (auto simp: erc1155Checks_def simulate_def io_defs split: option.splits)

lemma erc20Checks_no_funds_error:
  "snd (erc20Checks provider sw c) \<noteq> Inl (InsufficientGasFundsError r a)"
  by (auto simp: erc20Checks_def simulate_def io_defs split: option.splits)

lemma preflightChecks_no_funds_error:
  "snd (preflightChecks provider sw c) \<noteq> Inl (InsufficientGasFundsError r a)"
  by (simp add: preflightChecks_def Let_def nftChecks_no_funds_error
      erc1155Checks_no_funds_error erc20Checks_no_funds_error io_return_def)

lemma single_funds:
  assumes "snd (createSmartWalletTransaction provider sw owner c chainId)
             = Inl (InsufficientGasFundsError r a)"
  shows "snd (assembleExecute provider sw owner c chainId) = Inl (InsufficientGasFundsError r a)"
  using assms checkContract_no_funds_error verifyOwnership_no_funds_error
    preflightChecks_no_funds_error
  by (auto simp: createSmartWalletTransaction_def snd_io_bind_Inl)

lemma assembleExecute_reached:
  assumes "encodeExecuteCall c = Inr d" and "getTransactionCount provider owner = Some n"
    and "getFeeData provider = Some f" and "estimateGas provider owner sw d 0 = Some g"
    and "getBalance provider owner = Some bal"
  shows "snd (assembleExecute provider sw owner c chainId)
         = (if bal < g * 150 div 100 * feeOrZero (maxFeePerGas f)
            then Inl (InsufficientGasFundsError (g * 150 div 100 * feeOrZero (maxFeePerGas f)) bal)
            else Inr \<lparr>tx_to = sw, tx_value = 0, tx_data = d, tx_nonce = n,
                      tx_chainId = chainId, tx_type = 2, tx_maxFeePerGas = maxFeePerGas f,
                      tx_maxPriorityFeePerGas = maxPriorityFeePerGas f,
                      tx_gasLimit = g * 150 div 100\<rparr>)"
  using assms by (simp add: assembleExecute_def io_defs Let_def)

lemma batch_reached:
  assumes "encodeExecuteBatchCall calls = Inr d" and "getTransactionCount provider owner = Some n"
    and "getFeeData provider = Some f" and "getBalance provider owner = Some bal"
    and "gl = (case estimateGas provider owner sw d 0 of
                 None \<Rightarrow> 300000 | Some g \<Rightarrow> g * 150 div 100)"
  shows "snd (createSmartWalletBatchTransaction provider sw owner calls chainId)
         = (if bal < gl * feeOrZero (maxFeePerGas f)
            then Inl (InsufficientGasFundsError (gl * feeOrZero (maxFeePerGas f)) bal)
            else Inr \<lparr>tx_to = sw, tx_value = 0, tx_data = d, tx_nonce = n,
                      tx_chainId = chainId, tx_type = 2, tx_maxFeePerGas = maxFeePerGas f,
                      tx_maxPriorityFeePerGas = maxPriorityFeePerGas f, tx_gasLimit = gl\<rparr>)"
  using assms by (simp add: createSmartWalletBatchTransaction_def io_defs Let_def split: option.splits)

lemma batch_estimate_fails:
  assumes "encodeExecuteBatchCall calls = Inr d" and "estimateGas provider owner sw d 0 = None"
    and "getTransactionCount provider owner = Some n" and "getFeeData provider = Some f"
    and "getBalance provider owner = Some bal"
  shows "createSmartWalletBatchTransaction provider sw owner calls chainId
         = ([GetTransactionCount owner, GetFeeData, EstimateGas owner sw d, GetBalance owner],
            if bal < 300000 * feeOrZero (maxFeePerGas f)
            then Inl (InsufficientGasFundsError (300000 * feeOrZero (maxFeePerGas f)) bal)
            else Inr \<lparr>tx_to = sw, tx_value = 0, tx_data = d, tx_nonce = n,
                      tx_chainId = chainId, tx_type = 2, tx_maxFeePerGas = maxFeePerGas f,
                      tx_maxPriorityFeePerGas = maxPriorityFeePerGas f,
                      tx_gasLimit = 300000\<rparr>)"
  using assms by (simp add: createSmartWalletBatchTransaction_def io_defs Let_def)

lemma nftChecks_undecodable:
  "decode_transferFrom (data c) = None \<Longrightarrow> nftChecks provider sw c = ([], Inr ())"
  by (simp add: nftChecks_def io_defs)

text \<open>
  A slip of the source: line 225 admits the selector \<open>0x42842e0e\<close> of the ERC-721
  \<open>safeTransferFrom\<close> to the branch that line 237 decodes with the fragment of
  \<open>transferFrom\<close>, whose selector is another one. The decoder refuses every such
  payload, so for the well-formed call that \<open>createNFTTransferCall\<close> builds the
  branch ends at once: the ownership query and the simulation that it was written to
  make are never made.
\<close>

lemma nft_transfer_call_skips_checks:
  assumes "\<not> isWrappedENS nft"
    and "createNFTTransferCall nft fromA toA tokenId = Inr c"
  shows "nftChecks provider sw c = ([], Inr ())"
proof -
  from assms have "take 4 (data c) = sel_safeTransferFrom"
    by (auto simp: createNFTTransferCall_def encode_safeTransferFrom_def
        sel_safeTransferFrom_def split: if_splits)
  then have "decode_transferFrom (data c) = None"
    using selectors_distinct by (simp add: decode_transferFrom_def)
  then show ?thesis by (rule nftChecks_undecodable)
qed

lemma erc1155Checks_undecodable:
  "decode_safeTransferFrom1155 (data c) = None \<Longrightarrow> erc1155Checks provider sw c = ([], Inr ())"
  by (simp add: erc1155Checks_def io_defs)

lemma erc20Checks_undecodable:
  "decode_transfer (data c) = None \<Longrightarrow>
     erc20Checks provider sw c = ([BalanceOf (target c) sw, Symbol (target c), Decimals (target c)], Inr ())"
  by (simp add: erc20Checks_def io_defs split: option.splits)

lemma ens_addresses_distinct: "BASE_REGISTRAR \<noteq> NAME_WRAPPER"
  by (simp add: BASE_REGISTRAR_def NAME_WRAPPER_def)

lemma unwrapped_plan_length:
  assumes "\<not> isWrappedENS nft"
    and "createENSTransferCalls keccak256 nft tokenId cur new info = Inr calls"
  shows "1 < length calls"
  using assms
  by (auto simp: createENSTransferCalls_def split: sum.splits option.splits if_splits)

lemma encodeExecuteBatchCall_selector:
  "encodeExecuteBatchCall calls = Inr d \<Longrightarrow> take 4 d = sel_executeBatch"
  by (auto simp: encodeExecuteBatchCall_def abi_executeBatch_def sel_executeBatch_def split: if_splits)

text \<open>The scenarios, evaluated.\<close>

lemma transfer_call_facts:
  "target transfer_call = token" "val transfer_call = 0" "data transfer_call \<noteq> []"
  "take 4 (data transfer_call) = sel_transfer"
  "decode_transfer (data transfer_call) = Some (friend, 5)"
  "token \<noteq> wallet"
  using decode_transfer_encoded [of 5 friend]
  by (simp_all add: transfer_call_def sel_transfer_def token_def wallet_def)

lemma transfer_call_preflight:
  assumes "balanceOf provider token wallet = Some 1000"
    and "provider_call provider wallet token (data transfer_call) = Some r"
  shows "snd (preflightChecks provider wallet transfer_call) = Inr ()"
  using assms transfer_call_facts selectors_distinct
  by (simp add: preflightChecks_def erc20Checks_def simulate_def io_defs Let_def
      split: option.splits)

lemma ens_plan_evaluated:
  "snd (getENSInfo hash_stub healthy 5 False) = Inr ens_info"
  "createENSTransferCalls hash_stub BASE_REGISTRAR 5 wallet friend ens_info = Inr ens_plan"
  "encodeExecuteBatchCall ens_plan = Inr (abi_executeBatch ens_plan)"
  by (simp_all add: getENSInfo_def tokenIdToNamehash_def createENSTransferCalls_def
      encode_safeTransferFrom_def encodeExecuteBatchCall_def isWrappedENS_def uint256_ok_def
      ens_info_def ens_plan_def ens_node_def healthy_def
      BASE_REGISTRAR_def NAME_WRAPPER_def PUBLIC_RESOLVER_def ZeroAddress_def io_defs)

section \<open>Properties of the transaction pipeline\<close>

subsection \<open>Batch planner\<close>

text \<open>
  C1. A transfer of an ENS name in its native representation (the collection is the base
  registrar, not the name wrapper) that yields a request yields one request: it goes to
  the wallet itself, carries no value, and its payload is the \<open>executeBatch\<close> encoding of
  the whole plan, which has more than one call: decoding the payload as an
  \<open>executeBatch\<close> invocation returns exactly the calls of the plan, in their order.
  The request is the one that \<open>createSmartWalletBatchTransaction\<close> builds for that
  plan, and besides the queries about the name the only network requests are those of
  that one assembly.
\<close>

theorem unwrapped_ens_transfer_is_one_batch:
  assumes "isENSContract nft" and "\<not> isWrappedENS nft"
    and "snd (createNFTTransferTransaction keccak256 provider sw owner nft toA tokenId chainId)
           = Inr tx"
  shows "\<exists>ensInfo calls.
           snd (getENSInfo keccak256 provider tokenId False) = Inr ensInfo
         \<and> createENSTransferCalls keccak256 nft tokenId sw toA ensInfo = Inr calls
         \<and> 1 < length calls
         \<and> encodeExecuteBatchCall calls = Inr (tx_data tx)
         \<and> take 4 (tx_data tx) = sel_executeBatch
         \<and> decode_executeBatch (tx_data tx) = Some calls
         \<and> tx_to tx = sw \<and> tx_value tx = 0
         \<and> snd (createSmartWalletBatchTransaction provider sw owner calls chainId) = Inr tx
         \<and> fst (createNFTTransferTransaction keccak256 provider sw owner nft toA tokenId chainId)
             = fst (getENSInfo keccak256 provider tokenId False)
               @ fst (createSmartWalletBatchTransaction provider sw owner calls chainId)"
proof -
  from assms obtain ensInfo calls where
    info: "snd (getENSInfo keccak256 provider tokenId False) = Inr ensInfo"
    and calls: "createENSTransferCalls keccak256 nft tokenId sw toA ensInfo = Inr calls"
    and res: "snd (if length calls = 1
                   then createSmartWalletTransaction provider sw owner (calls ! 0) chainId
                   else createSmartWalletBatchTransaction provider sw owner calls chainId)
              = Inr tx"
    by (auto simp: createNFTTransferTransaction_def Let_def snd_io_bind_Inr lift_def)
  from assms(2) calls have len: "1 < length calls"
    by (rule unwrapped_plan_length)
  with res have batch: "snd (createSmartWalletBatchTransaction provider sw owner calls chainId)
                        = Inr tx"
    by simp
  from batch_Inr [OF batch] have enc: "encodeExecuteBatchCall calls = Inr (tx_data tx)"
    and to: "tx_to tx = sw" and v: "tx_value tx = 0"
    by auto
  from enc have sel: "take 4 (tx_data tx) = sel_executeBatch"
    by (rule encodeExecuteBatchCall_selector)
  from enc have bytes: "tx_data tx = abi_executeBatch calls"
    by (auto simp: encodeExecuteBatchCall_def split: if_splits)
  from unwrapped_plan_encodable [OF assms(2) calls]
  have "decode_executeBatch (abi_executeBatch calls) = Some calls"
    by (auto intro: executeBatch_roundtrip)
  with bytes have dec: "decode_executeBatch (tx_data tx) = Some calls" by simp
  have log: "fst (createNFTTransferTransaction keccak256 provider sw owner nft toA tokenId
                    chainId)
             = fst (getENSInfo keccak256 provider tokenId False)
               @ fst (createSmartWalletBatchTransaction provider sw owner calls chainId)"
    using assms(1,2) info calls len
    by (simp add: createNFTTransferTransaction_def Let_def io_bind_def lift_def)
  from info calls len enc sel dec to v batch log show ?thesis by blast
qed

text \<open>
  On the healthy chain the name with token id 5 moves in one batch: the payload of the
  request decodes to the three calls of the plan.
\<close>

theorem unwrapped_ens_transfer_is_one_batch_witness:
  "isENSContract BASE_REGISTRAR \<and> \<not> isWrappedENS BASE_REGISTRAR
   \<and> snd (createNFTTransferTransaction hash_stub healthy wallet burner BASE_REGISTRAR friend 5 1)
       = Inr (request (abi_executeBatch ens_plan) 150000)
   \<and> take 4 (tx_data (request (abi_executeBatch ens_plan) 150000)) = sel_executeBatch
   \<and> decode_executeBatch (tx_data (request (abi_executeBatch ens_plan) 150000))
       = Some
           [\<lparr>target = PUBLIC_RESOLVER, val = 0,
              data = sel_setAddr @ abi_bytes32 ens_node @ abi_address friend\<rparr>,
            \<lparr>target = REGISTRY, val = 0,
              data = sel_setOwner @ abi_bytes32 ens_node @ abi_address friend\<rparr>,
            \<lparr>target = BASE_REGISTRAR, val = 0,
              data = sel_safeTransferFrom @ abi_address wallet @ abi_address friend
                     @ abi_word 5\<rparr>]
   \<and> tx_to (request (abi_executeBatch ens_plan) 150000) = wallet"
proof -
  have h1: "isENSContract BASE_REGISTRAR" by (simp add: isENSContract_def)
  have h2: "\<not> isWrappedENS BASE_REGISTRAR"
    by (simp add: isWrappedENS_def ens_addresses_distinct)
  have h3: "snd (createNFTTransferTransaction hash_stub healthy wallet burner BASE_REGISTRAR
                   friend 5 1)
            = Inr (request (abi_executeBatch ens_plan) 150000)"
    by (simp add: createNFTTransferTransaction_def isENSContract_def isWrappedENS_def
        getENSInfo_def tokenIdToNamehash_def createENSTransferCalls_def
        encode_safeTransferFrom_def createSmartWalletBatchTransaction_def
        encodeExecuteBatchCall_def uint256_ok_def feeOrZero_def healthy_def request_def
        ens_plan_def ens_node_def BASE_REGISTRAR_def NAME_WRAPPER_def PUBLIC_RESOLVER_def
        ZeroAddress_def io_defs Let_def)
  from unwrapped_ens_transfer_is_one_batch [OF h1 h2 h3] ens_plan_evaluated
  have "take 4 (tx_data (request (abi_executeBatch ens_plan) 150000)) = sel_executeBatch"
    and dec: "decode_executeBatch (tx_data (request (abi_executeBatch ens_plan) 150000))
              = Some ens_plan"
    and "tx_to (request (abi_executeBatch ens_plan) 150000) = wallet"
    by auto
  moreover have "ens_plan =
           [\<lparr>target = PUBLIC_RESOLVER, val = 0,
              data = sel_setAddr @ abi_bytes32 ens_node @ abi_address friend\<rparr>,
            \<lparr>target = REGISTRY, val = 0,
              data = sel_setOwner @ abi_bytes32 ens_node @ abi_address friend\<rparr>,
            \<lparr>target = BASE_REGISTRAR, val = 0,
              data = sel_safeTransferFrom @ abi_address wallet @ abi_address friend
                     @ abi_word 5\<rparr>]"
    by (simp add: ens_plan_def encode_setAddr_def encode_setOwner_def)
  ultimately show ?thesis using h1 h2 h3 by simp
qed

text \<open>
  C8. For a token id within \<open>uint256\<close>: the plan for the name wrapper is the single
  ERC-1155 transfer of one unit from the current to the new owner; the plan for any other
  collection is, in this order, the resolver's \<open>setAddr\<close> (present exactly when a
  resolver is registered and is not the zero address), the registry's \<open>setOwner\<close> and
  the registrar's \<open>safeTransferFrom\<close>, so it has three calls with a resolver and two
  without, and its last call is always the token transfer.
\<close>

theorem ens_transfer_plan_shape:
  assumes "0 \<le> tokenId" and "tokenId < 2 ^ 256"
  shows "if contractAddress = NAME_WRAPPER
         then createENSTransferCalls keccak256 contractAddress tokenId currentOwner newOwner ensInfo
                = Inr [\<lparr>target = NAME_WRAPPER, val = 0,
                        data = sel_safeTransferFrom1155 @ abi_address currentOwner
                               @ abi_address newOwner @ abi_word (nat tokenId) @ abi_word 1
                               @ abi_word 160 @ abi_bytes []\<rparr>]
              \<and> decode_safeTransferFrom1155
                   (sel_safeTransferFrom1155 @ abi_address currentOwner
                    @ abi_address newOwner @ abi_word (nat tokenId) @ abi_word 1
                    @ abi_word 160 @ abi_bytes [])
                 = Some (currentOwner, newOwner, nat tokenId, 1)
         else (\<exists>node calls.
                 tokenIdToNamehash keccak256 tokenId = Inr node
               \<and> createENSTransferCalls keccak256 contractAddress tokenId currentOwner newOwner
                    ensInfo = Inr calls
               \<and> calls =
                   (case resolver ensInfo of
                      None \<Rightarrow> []
                    | Some r \<Rightarrow>
                        if r = ZeroAddress then []
                        else [\<lparr>target = r, val = 0,
                               data = sel_setAddr @ abi_bytes32 node @ abi_address newOwner\<rparr>])
                   @ [\<lparr>target = REGISTRY, val = 0,
                        data = sel_setOwner @ abi_bytes32 node @ abi_address newOwner\<rparr>,
                      \<lparr>target = BASE_REGISTRAR, val = 0,
                        data = sel_safeTransferFrom @ abi_address currentOwner
                               @ abi_address newOwner @ abi_word (nat tokenId)\<rparr>]
               \<and> length calls =
                   (case resolver ensInfo of
                      None \<Rightarrow> 2
                    | Some r \<Rightarrow> if r = ZeroAddress then 2 else 3)
               \<and> target (last calls) = BASE_REGISTRAR
               \<and> take 4 (data (last calls)) = sel_safeTransferFrom)"
proof (cases "contractAddress = NAME_WRAPPER")
  case True
  have ok: "uint256_ok tokenId" using assms by (simp add: uint256_ok_def)
  have lt: "nat tokenId < 2 ^ 256" using assms by (simp add: nat_less_iff)
  have dec: "decode_safeTransferFrom1155
               (sel_safeTransferFrom1155 @ abi_address currentOwner
                @ abi_address newOwner @ abi_word (nat tokenId) @ abi_word 1
                @ abi_word 160 @ abi_bytes [])
             = Some (currentOwner, newOwner, nat tokenId, 1)"
    by (rule decode_safeTransferFrom1155_encoded) (use lt in \<open>simp_all add: maxSafeInteger_def\<close>)
  show ?thesis
    using True ok dec
    by (simp add: createENSTransferCalls_def isWrappedENS_def encode_safeTransferFrom1155_def
        uint256_ok_def)
next
  case False
  have ok: "uint256_ok tokenId" using assms by (simp add: uint256_ok_def)
  show ?thesis
    using False ok
    by (auto simp: createENSTransferCalls_def isWrappedENS_def tokenIdToNamehash_def
        encode_safeTransferFrom_def encode_setAddr_def encode_setOwner_def
        sel_safeTransferFrom_def
        split: option.splits)
qed

text \<open>The wrapped plan and the unwrapped plan of the scenarios.\<close>

theorem ens_transfer_plan_shape_witness:
  "(0::int) \<le> 5 \<and> (5::int) < 2 ^ 256
   \<and> createENSTransferCalls hash_stub NAME_WRAPPER 5 wallet friend
        \<lparr>tokenOwner = None, registryOwner = None, ethRecord = None, resolver = None\<rparr>
       = Inr [\<lparr>target = NAME_WRAPPER, val = 0,
               data = sel_safeTransferFrom1155 @ abi_address wallet @ abi_address friend
                      @ abi_word 5 @ abi_word 1 @ abi_word 160 @ abi_bytes []\<rparr>]
   \<and> createENSTransferCalls hash_stub BASE_REGISTRAR 5 wallet friend ens_info = Inr ens_plan
   \<and> length ens_plan = 3"
proof -
  have h1: "(0::int) \<le> 5" and h2: "(5::int) < 2 ^ 256" by simp_all
  from ens_transfer_plan_shape [OF h1 h2, of NAME_WRAPPER hash_stub wallet friend
      "\<lparr>tokenOwner = None, registryOwner = None, ethRecord = None, resolver = None\<rparr>"]
  have w: "createENSTransferCalls hash_stub NAME_WRAPPER 5 wallet friend
        \<lparr>tokenOwner = None, registryOwner = None, ethRecord = None, resolver = None\<rparr>
       = Inr [\<lparr>target = NAME_WRAPPER, val = 0,
               data = sel_safeTransferFrom1155 @ abi_address wallet @ abi_address friend
                      @ abi_word 5 @ abi_word 1 @ abi_word 160 @ abi_bytes []\<rparr>]"
    by simp
  from ens_transfer_plan_shape [OF h1 h2, of BASE_REGISTRAR hash_stub wallet friend ens_info]
  have u: "createENSTransferCalls hash_stub BASE_REGISTRAR 5 wallet friend ens_info
             = Inr ens_plan"
    by (simp add: ens_plan_evaluated)
  have "length ens_plan = 3" by (simp add: ens_plan_def)
  with h1 h2 w u show ?thesis by simp
qed

subsection \<open>Transaction assembler\<close>

text \<open>A batch of two token transfers on the chain that rejects every gas estimate.\<close>

theorem batch_gas_default_counterexample:
  "data transfer_call \<noteq> []
   \<and> encodeExecuteBatchCall two_transfers = Inr (abi_executeBatch two_transfers)
   \<and> estimateGas reverting burner wallet (abi_executeBatch two_transfers) 0 = None
   \<and> snd (createSmartWalletBatchTransaction reverting wallet burner two_transfers 1)
       = Inr (request (abi_executeBatch two_transfers) 300000)"
  by (simp add: createSmartWalletBatchTransaction_def encodeExecuteBatchCall_def
      uint256_ok_def feeOrZero_def reverting_def healthy_def two_transfers_def transfer_call_def
      request_def sel_transfer_def io_defs Let_def)

text \<open>
  C2, as the code has it. On the single-call path a failed gas estimate never yields a
  request, whatever the payload, and when the pipeline reaches the estimate the error is
  \<open>GasEstimationFailedError\<close>. On the batch path a failed estimate is not an error:
  once the payload is encoded and nonce, fees and balance are fetched, the assembly
  goes on after the rejected estimate with the default limit of 300000, asks for the
  balance and returns the request with that limit whenever the balance covers
  300000 times the fee; the only error left is the one of the balance check. So every
  request returned after a failed estimate carries the limit 300000.
\<close>

theorem gas_estimate_failure_handling:
  "(encodeExecuteCall c = Inr d \<and> estimateGas provider owner sw d 0 = None \<longrightarrow>
      (\<forall>tx. snd (createSmartWalletTransaction provider sw owner c chainId) \<noteq> Inr tx)
    \<and> (snd (checkContract provider sw chainId) = Inr ()
       \<and> snd (verifyOwnership provider sw owner) = Inr ()
       \<and> snd (preflightChecks provider sw c) = Inr ()
       \<and> getTransactionCount provider owner \<noteq> None \<and> getFeeData provider \<noteq> None \<longrightarrow>
         snd (createSmartWalletTransaction provider sw owner c chainId)
           = Inl GasEstimationFailedError))
   \<and> (encodeExecuteBatchCall calls = Inr d' \<and> estimateGas provider owner sw d' 0 = None
      \<and> getTransactionCount provider owner = Some n \<and> getFeeData provider = Some f
      \<and> getBalance provider owner = Some bal \<longrightarrow>
        createSmartWalletBatchTransaction provider sw owner calls chainId
          = ([GetTransactionCount owner, GetFeeData, EstimateGas owner sw d',
              GetBalance owner],
             if bal < 300000 * feeOrZero (maxFeePerGas f)
             then Inl (InsufficientGasFundsError (300000 * feeOrZero (maxFeePerGas f)) bal)
             else Inr \<lparr>tx_to = sw, tx_value = 0, tx_data = d', tx_nonce = n,
                       tx_chainId = chainId, tx_type = 2, tx_maxFeePerGas = maxFeePerGas f,
                       tx_maxPriorityFeePerGas = maxPriorityFeePerGas f,
                       tx_gasLimit = 300000\<rparr>))
   \<and> (encodeExecuteBatchCall calls = Inr d' \<and> estimateGas provider owner sw d' 0 = None
      \<and> snd (createSmartWalletBatchTransaction provider sw owner calls chainId) = Inr tx' \<longrightarrow>
        tx_gasLimit tx' = 300000)"
proof (intro conjI impI allI)
  fix tx
  assume a: "encodeExecuteCall c = Inr d \<and> estimateGas provider owner sw d 0 = None"
  show "snd (createSmartWalletTransaction provider sw owner c chainId) \<noteq> Inr tx"
  proof
    assume "snd (createSmartWalletTransaction provider sw owner c chainId) = Inr tx"
    then have "snd (assembleExecute provider sw owner c chainId) = Inr tx"
      by (rule single_Inr)
    from assembleExecute_Inr [OF this] a show False by auto
  qed
next
  assume a: "encodeExecuteCall c = Inr d \<and> estimateGas provider owner sw d 0 = None"
    and b: "snd (checkContract provider sw chainId) = Inr ()
       \<and> snd (verifyOwnership provider sw owner) = Inr ()
       \<and> snd (preflightChecks provider sw c) = Inr ()
       \<and> getTransactionCount provider owner \<noteq> None \<and> getFeeData provider \<noteq> None"
  from b obtain n f where nf: "getTransactionCount provider owner = Some n"
      "getFeeData provider = Some f" by auto
  from a nf have "snd (assembleExecute provider sw owner c chainId) = Inl GasEstimationFailedError"
    by (simp add: assembleExecute_estimate_fails)
  with b show "snd (createSmartWalletTransaction provider sw owner c chainId)
           = Inl GasEstimationFailedError"
    by (simp add: single_reaches_assembly)
next
  assume a: "encodeExecuteBatchCall calls = Inr d' \<and> estimateGas provider owner sw d' 0 = None
      \<and> getTransactionCount provider owner = Some n \<and> getFeeData provider = Some f
      \<and> getBalance provider owner = Some bal"
  then show "createSmartWalletBatchTransaction provider sw owner calls chainId
          = ([GetTransactionCount owner, GetFeeData, EstimateGas owner sw d',
              GetBalance owner],
             if bal < 300000 * feeOrZero (maxFeePerGas f)
             then Inl (InsufficientGasFundsError (300000 * feeOrZero (maxFeePerGas f)) bal)
             else Inr \<lparr>tx_to = sw, tx_value = 0, tx_data = d', tx_nonce = n,
                       tx_chainId = chainId, tx_type = 2, tx_maxFeePerGas = maxFeePerGas f,
                       tx_maxPriorityFeePerGas = maxPriorityFeePerGas f,
                       tx_gasLimit = 300000\<rparr>)"
    by (intro batch_estimate_fails) simp_all
next
  assume a: "encodeExecuteBatchCall calls = Inr d' \<and> estimateGas provider owner sw d' 0 = None
      \<and> snd (createSmartWalletBatchTransaction provider sw owner calls chainId) = Inr tx'"
  then have "snd (createSmartWalletBatchTransaction provider sw owner calls chainId) = Inr tx'"
    by simp
  from batch_Inr [OF this] a show "tx_gasLimit tx' = 300000" by auto
qed

text \<open>
  Both paths on the chain that rejects every gas estimate: the single call ends in the
  error, the batch of two transfers is returned with the default limit.
\<close>

theorem gas_estimate_failure_handling_witness:
  "encodeExecuteCall transfer_call = Inr (abi_execute transfer_call)
   \<and> estimateGas reverting burner wallet (abi_execute transfer_call) 0 = None
   \<and> snd (checkContract reverting wallet 1) = Inr ()
   \<and> snd (verifyOwnership reverting wallet burner) = Inr ()
   \<and> snd (preflightChecks reverting wallet transfer_call) = Inr ()
   \<and> getTransactionCount reverting burner \<noteq> None \<and> getFeeData reverting \<noteq> None
   \<and> snd (createSmartWalletTransaction reverting wallet burner transfer_call 1)
       = Inl GasEstimationFailedError
   \<and> encodeExecuteBatchCall two_transfers = Inr (abi_executeBatch two_transfers)
   \<and> estimateGas reverting burner wallet (abi_executeBatch two_transfers) 0 = None
   \<and> getTransactionCount reverting burner = Some 7
   \<and> getFeeData reverting
       = Some \<lparr>maxFeePerGas = Some 30000000000, maxPriorityFeePerGas = Some 1000000000\<rparr>
   \<and> getBalance reverting burner = Some 1000000000000000000
   \<and> createSmartWalletBatchTransaction reverting wallet burner two_transfers 1
       = ([GetTransactionCount burner, GetFeeData,
           EstimateGas burner wallet (abi_executeBatch two_transfers), GetBalance burner],
          Inr (request (abi_executeBatch two_transfers) 300000))
   \<and> tx_gasLimit (request (abi_executeBatch two_transfers) 300000) = 300000"
proof -
  have a1: "encodeExecuteCall transfer_call = Inr (abi_execute transfer_call)"
    by (simp add: encodeExecuteCall_def uint256_ok_def transfer_call_facts)
  have a2: "estimateGas reverting burner wallet (abi_execute transfer_call) 0 = None"
    by (simp add: reverting_def)
  have a3: "snd (checkContract reverting wallet 1) = Inr ()"
    by (simp add: checkContract_def reverting_def healthy_def io_defs)
  have a4: "snd (verifyOwnership reverting wallet burner) = Inr ()"
    by (simp add: verifyOwnership_def isOwner_def reverting_def healthy_def io_defs)
  have a5: "snd (preflightChecks reverting wallet transfer_call) = Inr ()"
    by (rule transfer_call_preflight [where r = "[]"])
       (simp_all add: reverting_def healthy_def)
  have a6: "getTransactionCount reverting burner \<noteq> None" "getFeeData reverting \<noteq> None"
    by (simp_all add: reverting_def healthy_def)
  have b1: "encodeExecuteBatchCall two_transfers = Inr (abi_executeBatch two_transfers)"
    by (simp add: encodeExecuteBatchCall_def uint256_ok_def two_transfers_def
        transfer_call_facts)
  have b2: "estimateGas reverting burner wallet (abi_executeBatch two_transfers) 0 = None"
    by (simp add: reverting_def)
  have b4: "getTransactionCount reverting burner = Some 7"
    and b5: "getFeeData reverting
       = Some \<lparr>maxFeePerGas = Some 30000000000, maxPriorityFeePerGas = Some 1000000000\<rparr>"
    and b6: "getBalance reverting burner = Some 1000000000000000000"
    by (simp_all add: reverting_def healthy_def)
  note T = gas_estimate_failure_handling [where c = transfer_call
      and d = "abi_execute transfer_call" and provider = reverting and owner = burner
      and sw = wallet and chainId = 1 and calls = two_transfers
      and d' = "abi_executeBatch two_transfers" and n = 7
      and f = "\<lparr>maxFeePerGas = Some 30000000000, maxPriorityFeePerGas = Some 1000000000\<rparr>"
      and bal = 1000000000000000000
      and tx' = "request (abi_executeBatch two_transfers) 300000"]
  from mp [OF T [THEN conjunct1] conjI [OF a1 a2]]
  have "snd (checkContract reverting wallet 1) = Inr ()
       \<and> snd (verifyOwnership reverting wallet burner) = Inr ()
       \<and> snd (preflightChecks reverting wallet transfer_call) = Inr ()
       \<and> getTransactionCount reverting burner \<noteq> None \<and> getFeeData reverting \<noteq> None \<longrightarrow>
         snd (createSmartWalletTransaction reverting wallet burner transfer_call 1)
           = Inl GasEstimationFailedError"
    by (rule conjunct2)
  with a3 a4 a5 a6
  have s: "snd (createSmartWalletTransaction reverting wallet burner transfer_call 1)
           = Inl GasEstimationFailedError"
    by simp
  have hB: "encodeExecuteBatchCall two_transfers = Inr (abi_executeBatch two_transfers)
      \<and> estimateGas reverting burner wallet (abi_executeBatch two_transfers) 0 = None
      \<and> getTransactionCount reverting burner = Some 7
      \<and> getFeeData reverting
          = Some \<lparr>maxFeePerGas = Some 30000000000, maxPriorityFeePerGas = Some 1000000000\<rparr>
      \<and> getBalance reverting burner = Some 1000000000000000000"
    using b1 b2 b4 b5 b6 by simp
  from mp [OF T [THEN conjunct2, THEN conjunct1] hB]
  have r: "createSmartWalletBatchTransaction reverting wallet burner two_transfers 1
       = ([GetTransactionCount burner, GetFeeData,
           EstimateGas burner wallet (abi_executeBatch two_transfers), GetBalance burner],
          Inr (request (abi_executeBatch two_transfers) 300000))"
    by (simp add: feeOrZero_def request_def)
  then have hC: "encodeExecuteBatchCall two_transfers = Inr (abi_executeBatch two_transfers)
      \<and> estimateGas reverting burner wallet (abi_executeBatch two_transfers) 0 = None
      \<and> snd (createSmartWalletBatchTransaction reverting wallet burner two_transfers 1)
          = Inr (request (abi_executeBatch two_transfers) 300000)"
    using b1 b2 by simp
  from mp [OF T [THEN conjunct2, THEN conjunct2] hC]
  have g: "tx_gasLimit (request (abi_executeBatch two_transfers) 300000) = 300000" .
  from a1 a2 a3 a4 a5 a6 s b1 b2 b4 b5 b6 r g show ?thesis by simp
qed

text \<open>
  C9. On both paths a returned request satisfies
  \<open>gasLimit * (maxFeePerGas or 0) \<le> balance\<close> for the balance of the signer that the
  provider reported; an \<open>InsufficientGasFundsError\<close> names a required amount above the
  reported balance; and when the balance check is reached with a balance below the cost,
  the result is that error with exactly the cost and the balance.
\<close>

theorem returned_plan_is_affordable:
  "(snd (createSmartWalletTransaction provider sw owner c chainId) = Inr tx \<longrightarrow>
      (\<exists>bal. getBalance provider owner = Some bal
           \<and> tx_gasLimit tx * feeOrZero (tx_maxFeePerGas tx) \<le> bal))
   \<and> (snd (createSmartWalletBatchTransaction provider sw owner calls chainId) = Inr tx' \<longrightarrow>
      (\<exists>bal. getBalance provider owner = Some bal
           \<and> tx_gasLimit tx' * feeOrZero (tx_maxFeePerGas tx') \<le> bal))
   \<and> (snd (createSmartWalletTransaction provider sw owner c chainId)
         = Inl (InsufficientGasFundsError required available) \<longrightarrow>
      getBalance provider owner = Some available \<and> available < required)
   \<and> (snd (createSmartWalletBatchTransaction provider sw owner calls chainId)
         = Inl (InsufficientGasFundsError required' available') \<longrightarrow>
      getBalance provider owner = Some available' \<and> available' < required')
   \<and> (snd (checkContract provider sw chainId) = Inr ()
      \<and> snd (verifyOwnership provider sw owner) = Inr ()
      \<and> snd (preflightChecks provider sw c) = Inr ()
      \<and> encodeExecuteCall c = Inr d \<and> getTransactionCount provider owner = Some n
      \<and> getFeeData provider = Some f \<and> estimateGas provider owner sw d 0 = Some g
      \<and> getBalance provider owner = Some b
      \<and> b < g * 150 div 100 * feeOrZero (maxFeePerGas f) \<longrightarrow>
      snd (createSmartWalletTransaction provider sw owner c chainId)
        = Inl (InsufficientGasFundsError (g * 150 div 100 * feeOrZero (maxFeePerGas f)) b))
   \<and> (encodeExecuteBatchCall calls = Inr d' \<and> getTransactionCount provider owner = Some n
      \<and> getFeeData provider = Some f \<and> getBalance provider owner = Some b
      \<and> b < (case estimateGas provider owner sw d' 0 of
                None \<Rightarrow> 300000 | Some g \<Rightarrow> g * 150 div 100) * feeOrZero (maxFeePerGas f) \<longrightarrow>
      snd (createSmartWalletBatchTransaction provider sw owner calls chainId)
        = Inl (InsufficientGasFundsError
                 ((case estimateGas provider owner sw d' 0 of
                     None \<Rightarrow> 300000 | Some g \<Rightarrow> g * 150 div 100) * feeOrZero (maxFeePerGas f))
                 b))"
proof (intro conjI impI)
  assume "snd (createSmartWalletTransaction provider sw owner c chainId) = Inr tx"
  then have "snd (assembleExecute provider sw owner c chainId) = Inr tx"
    by (rule single_Inr)
  from assembleExecute_Inr [OF this]
  show "\<exists>bal. getBalance provider owner = Some bal
           \<and> tx_gasLimit tx * feeOrZero (tx_maxFeePerGas tx) \<le> bal"
    by auto
next
  assume "snd (createSmartWalletBatchTransaction provider sw owner calls chainId) = Inr tx'"
  from batch_Inr [OF this]
  show "\<exists>bal. getBalance provider owner = Some bal
           \<and> tx_gasLimit tx' * feeOrZero (tx_maxFeePerGas tx') \<le> bal"
    by auto
next
  assume a: "snd (createSmartWalletTransaction provider sw owner c chainId)
         = Inl (InsufficientGasFundsError required available)"
  from assembleExecute_funds [OF single_funds [OF a]]
  show "getBalance provider owner = Some available" and "available < required" by simp_all
next
  assume a: "snd (createSmartWalletBatchTransaction provider sw owner calls chainId)
         = Inl (InsufficientGasFundsError required' available')"
  from batch_funds [OF a]
  show "getBalance provider owner = Some available'" and "available' < required'" by simp_all
next
  assume a: "snd (checkContract provider sw chainId) = Inr ()
      \<and> snd (verifyOwnership provider sw owner) = Inr ()
      \<and> snd (preflightChecks provider sw c) = Inr ()
      \<and> encodeExecuteCall c = Inr d \<and> getTransactionCount provider owner = Some n
      \<and> getFeeData provider = Some f \<and> estimateGas provider owner sw d 0 = Some g
      \<and> getBalance provider owner = Some b
      \<and> b < g * 150 div 100 * feeOrZero (maxFeePerGas f)"
  then have "snd (createSmartWalletTransaction provider sw owner c chainId)
           = snd (assembleExecute provider sw owner c chainId)"
    by (simp add: single_reaches_assembly)
  with a show "snd (createSmartWalletTransaction provider sw owner c chainId)
        = Inl (InsufficientGasFundsError (g * 150 div 100 * feeOrZero (maxFeePerGas f)) b)"
    by (simp add: assembleExecute_reached)
next
  assume a: "encodeExecuteBatchCall calls = Inr d' \<and> getTransactionCount provider owner = Some n
      \<and> getFeeData provider = Some f \<and> getBalance provider owner = Some b
      \<and> b < (case estimateGas provider owner sw d' 0 of
                None \<Rightarrow> 300000 | Some g \<Rightarrow> g * 150 div 100) * feeOrZero (maxFeePerGas f)"
  then show "snd (createSmartWalletBatchTransaction provider sw owner calls chainId)
        = Inl (InsufficientGasFundsError
                 ((case estimateGas provider owner sw d' 0 of
                     None \<Rightarrow> 300000 | Some g \<Rightarrow> g * 150 div 100) * feeOrZero (maxFeePerGas f))
                 b)"
    by (simp add: batch_reached [where gl = "case estimateGas provider owner sw d' 0 of
                     None \<Rightarrow> 300000 | Some g \<Rightarrow> g * 150 div 100"])
qed

text \<open>The healthy chain returns affordable requests; the poor chain returns none.\<close>

theorem returned_plan_is_affordable_witness:
  "snd (createSmartWalletTransaction healthy wallet burner transfer_call 1)
     = Inr (request (abi_execute transfer_call) 150000)
   \<and> snd (createSmartWalletBatchTransaction healthy wallet burner two_transfers 1)
     = Inr (request (abi_executeBatch two_transfers) 150000)
   \<and> getBalance healthy burner = Some 1000000000000000000
   \<and> tx_gasLimit (request (abi_execute transfer_call) 150000)
       * feeOrZero (tx_maxFeePerGas (request (abi_execute transfer_call) 150000))
       \<le> 1000000000000000000
   \<and> tx_gasLimit (request (abi_executeBatch two_transfers) 150000)
       * feeOrZero (tx_maxFeePerGas (request (abi_executeBatch two_transfers) 150000))
       \<le> 1000000000000000000
   \<and> getBalance poor burner = Some 1000
   \<and> snd (createSmartWalletTransaction poor wallet burner transfer_call 1)
     = Inl (InsufficientGasFundsError 4500000000000000 1000)
   \<and> snd (createSmartWalletBatchTransaction poor wallet burner two_transfers 1)
     = Inl (InsufficientGasFundsError 4500000000000000 1000)"
proof -
  have e1: "encodeExecuteCall transfer_call = Inr (abi_execute transfer_call)"
    by (simp add: encodeExecuteCall_def uint256_ok_def transfer_call_facts)
  have e2: "encodeExecuteBatchCall two_transfers = Inr (abi_executeBatch two_transfers)"
    by (simp add: encodeExecuteBatchCall_def uint256_ok_def two_transfers_def
        transfer_call_facts)
  have p1: "snd (preflightChecks healthy wallet transfer_call) = Inr ()"
    by (rule transfer_call_preflight [where r = "[]"]) (simp_all add: healthy_def)
  have p2: "snd (preflightChecks poor wallet transfer_call) = Inr ()"
    by (rule transfer_call_preflight [where r = "[]"]) (simp_all add: poor_def healthy_def)
  have s1: "snd (createSmartWalletTransaction healthy wallet burner transfer_call 1)
              = Inr (request (abi_execute transfer_call) 150000)"
    using e1 p1
    by (simp add: single_reaches_assembly assembleExecute_reached [where n = 7
          and g = 100000 and bal = 1000000000000000000
          and f = "\<lparr>maxFeePerGas = Some 30000000000, maxPriorityFeePerGas = Some 1000000000\<rparr>"]
        checkContract_def verifyOwnership_def isOwner_def feeOrZero_def healthy_def
        request_def io_defs)
  have s2: "snd (createSmartWalletBatchTransaction healthy wallet burner two_transfers 1)
              = Inr (request (abi_executeBatch two_transfers) 150000)"
    using e2
    by (simp add: createSmartWalletBatchTransaction_def feeOrZero_def healthy_def request_def
        io_defs Let_def)
  have g1: "getBalance healthy burner = Some 1000000000000000000"
    by (simp add: healthy_def)
  have g2: "getBalance poor burner = Some 1000"
    by (simp add: poor_def)
  have c1: "snd (checkContract poor wallet 1) = Inr ()"
    by (simp add: checkContract_def poor_def healthy_def io_defs)
  have c2: "snd (verifyOwnership poor wallet burner) = Inr ()"
    by (simp add: verifyOwnership_def isOwner_def poor_def healthy_def io_defs)
  have q: "getTransactionCount poor burner = Some 7"
    "getFeeData poor
       = Some \<lparr>maxFeePerGas = Some 30000000000, maxPriorityFeePerGas = Some 1000000000\<rparr>"
    "estimateGas poor burner wallet (abi_execute transfer_call) 0 = Some 100000"
    "estimateGas poor burner wallet (abi_executeBatch two_transfers) 0 = Some 100000"
    by (simp_all add: poor_def healthy_def)
  note good = returned_plan_is_affordable [where provider = healthy and sw = wallet
      and owner = burner and c = transfer_call and chainId = 1 and calls = two_transfers
      and tx = "request (abi_execute transfer_call) 150000"
      and tx' = "request (abi_executeBatch two_transfers) 150000"]
  note bad = returned_plan_is_affordable [where provider = poor and sw = wallet
      and owner = burner and c = transfer_call and chainId = 1 and calls = two_transfers
      and d = "abi_execute transfer_call" and d' = "abi_executeBatch two_transfers"
      and n = 7 and g = 100000 and b = 1000
      and f = "\<lparr>maxFeePerGas = Some 30000000000, maxPriorityFeePerGas = Some 1000000000\<rparr>"]
  from mp [OF good [THEN conjunct1] s1] g1
  have i1: "tx_gasLimit (request (abi_execute transfer_call) 150000)
       * feeOrZero (tx_maxFeePerGas (request (abi_execute transfer_call) 150000))
       \<le> 1000000000000000000"
    by simp
  from mp [OF good [THEN conjunct2, THEN conjunct1] s2] g1
  have i2: "tx_gasLimit (request (abi_executeBatch two_transfers) 150000)
       * feeOrZero (tx_maxFeePerGas (request (abi_executeBatch two_transfers) 150000))
       \<le> 1000000000000000000"
    by simp
  have cost: "(1000::nat) < 100000 * 150 div 100 * 30000000000" by simp
  have hE: "snd (checkContract poor wallet 1) = Inr ()
      \<and> snd (verifyOwnership poor wallet burner) = Inr ()
      \<and> snd (preflightChecks poor wallet transfer_call) = Inr ()
      \<and> encodeExecuteCall transfer_call = Inr (abi_execute transfer_call)
      \<and> getTransactionCount poor burner = Some 7
      \<and> getFeeData poor
          = Some \<lparr>maxFeePerGas = Some 30000000000, maxPriorityFeePerGas = Some 1000000000\<rparr>
      \<and> estimateGas poor burner wallet (abi_execute transfer_call) 0 = Some 100000
      \<and> getBalance poor burner = Some 1000
      \<and> 1000 < 100000 * 150 div 100
                 * feeOrZero (maxFeePerGas \<lparr>maxFeePerGas = Some 30000000000,
                                            maxPriorityFeePerGas = Some 1000000000\<rparr>)"
    using c1 c2 p2 e1 q g2 cost by (simp add: feeOrZero_def)
  have hF: "encodeExecuteBatchCall two_transfers = Inr (abi_executeBatch two_transfers)
      \<and> getTransactionCount poor burner = Some 7
      \<and> getFeeData poor
          = Some \<lparr>maxFeePerGas = Some 30000000000, maxPriorityFeePerGas = Some 1000000000\<rparr>
      \<and> getBalance poor burner = Some 1000
      \<and> 1000 < (case estimateGas poor burner wallet (abi_executeBatch two_transfers) 0 of
                   None \<Rightarrow> 300000 | Some g \<Rightarrow> g * 150 div 100)
                 * feeOrZero (maxFeePerGas \<lparr>maxFeePerGas = Some 30000000000,
                                            maxPriorityFeePerGas = Some 1000000000\<rparr>)"
    using e2 q g2 cost by (simp add: feeOrZero_def)
  from mp [OF bad [THEN conjunct2, THEN conjunct2, THEN conjunct2, THEN conjunct2,
                   THEN conjunct1] hE]
  have f1: "snd (createSmartWalletTransaction poor wallet burner transfer_call 1)
     = Inl (InsufficientGasFundsError 4500000000000000 1000)"
    by (simp add: feeOrZero_def)
  from mp [OF bad [THEN conjunct2, THEN conjunct2, THEN conjunct2, THEN conjunct2,
                   THEN conjunct2] hF] q
  have f2: "snd (createSmartWalletBatchTransaction poor wallet burner two_transfers 1)
     = Inl (InsufficientGasFundsError 4500000000000000 1000)"
    by (simp add: feeOrZero_def)
  from s1 s2 g1 i1 i2 g2 f1 f2 show ?thesis by simp
qed

subsection \<open>Ownership and balance validator\<close>

text \<open>
  On the single-call path an account without code ends the pipeline after the one code
  query, with an error that carries the chain name, and the chain name determines the
  chain id. The batch path never issues a code query.
\<close>

lemma chainName_inj: "chainName a = chainName b \<Longrightarrow> a = b"
  by (auto simp: chainName_def split: if_splits)

lemma undeployed_single_path:
  assumes "getCode provider sw = Some []"
  shows "createSmartWalletTransaction provider sw owner c chainId
           = ([GetCode sw], Inl (AccountNotDeployedError sw (chainName chainId)))"
  using assms by (simp add: createSmartWalletTransaction_def checkContract_def io_defs)

lemma batch_log:
  "set (fst (createSmartWalletBatchTransaction provider sw owner calls chainId))
     \<subseteq> {GetTransactionCount owner, GetFeeData, GetBalance owner}
       \<union> {EstimateGas owner sw d | d. encodeExecuteBatchCall calls = Inr d}"
  by (auto simp: createSmartWalletBatchTransaction_def io_defs Let_def
      split: sum.splits option.splits prod.splits if_splits)

text \<open>
  C3. The code at the input where the claim fails: the wallet has no code, and the
  transfer of an unwrapped ENS name still returns a request, after eight network
  requests none of which asks for the code of the wallet.
\<close>

theorem batch_path_skips_deployment_check:
  "getCode undeployed wallet = Some []
   \<and> createNFTTransferTransaction hash_stub undeployed wallet burner BASE_REGISTRAR friend 5 1
     = ([OwnerOf BASE_REGISTRAR 5, RegistryOwner ens_node, RegistryResolver ens_node,
         ResolverAddr PUBLIC_RESOLVER ens_node, GetTransactionCount burner, GetFeeData,
         EstimateGas burner wallet (abi_executeBatch ens_plan), GetBalance burner],
        Inr (request (abi_executeBatch ens_plan) 150000))"
  by (simp add: createNFTTransferTransaction_def isENSContract_def isWrappedENS_def
      getENSInfo_def tokenIdToNamehash_def createENSTransferCalls_def encode_safeTransferFrom_def
      createSmartWalletBatchTransaction_def encodeExecuteBatchCall_def
      uint256_ok_def feeOrZero_def undeployed_def healthy_def request_def ens_plan_def
      ens_node_def BASE_REGISTRAR_def NAME_WRAPPER_def PUBLIC_RESOLVER_def ZeroAddress_def
      io_defs Let_def)

text \<open>
  C4. When the ownership check reports that the signer is not an owner, the single-call
  pipeline ends in an error and has issued no request besides the code query and the
  owner query: no simulation, no nonce or fee query, no gas estimate, no balance query.
  When the contract check had passed, the error is \<open>NotOwnerError\<close> and the log is
  exactly these two requests.
\<close>

theorem not_owner_stops_pipeline:
  assumes "snd (verifyOwnership provider sw owner) = Inl (NotOwnerError owner sw)"
  shows "(\<exists>e. snd (createSmartWalletTransaction provider sw owner c chainId) = Inl e)
       \<and> set (fst (createSmartWalletTransaction provider sw owner c chainId))
           \<subseteq> {GetCode sw, IsOwnerAddress sw owner}
       \<and> (snd (checkContract provider sw chainId) = Inr () \<longrightarrow>
            createSmartWalletTransaction provider sw owner c chainId
              = ([GetCode sw, IsOwnerAddress sw owner], Inl (NotOwnerError owner sw)))"
  using assms
  by (auto simp: createSmartWalletTransaction_def verifyOwnership_def isOwner_def
      checkContract_def io_defs split: option.splits if_splits)

theorem not_owner_stops_pipeline_witness:
  "snd (verifyOwnership foreign wallet burner) = Inl (NotOwnerError burner wallet)
   \<and> snd (checkContract foreign wallet 1) = Inr ()
   \<and> createSmartWalletTransaction foreign wallet burner transfer_call 1
       = ([GetCode wallet, IsOwnerAddress wallet burner], Inl (NotOwnerError burner wallet))"
proof -
  have h: "snd (verifyOwnership foreign wallet burner) = Inl (NotOwnerError burner wallet)"
    by (simp add: verifyOwnership_def isOwner_def foreign_def healthy_def io_defs)
  have k: "snd (checkContract foreign wallet 1) = Inr ()"
    by (simp add: checkContract_def foreign_def healthy_def io_defs)
  from not_owner_stops_pipeline [OF h, of transfer_call 1] h k show ?thesis by simp
qed

text \<open>
  C10. When the \<open>isOwnerAddress\<close> query fails, \<open>isOwner\<close> returns \<open>false\<close> without
  an error, which is the very result it gives on a chain that answers \<open>false\<close>.
\<close>

theorem isOwner_failure_reads_as_not_owner:
  assumes "isOwnerAddress provider sw owner = None"
  shows "isOwner provider sw owner = ([IsOwnerAddress sw owner], Inr False)
       \<and> isOwner provider sw owner
           = isOwner (provider\<lparr>isOwnerAddress := (\<lambda>w a. Some False)\<rparr>) sw owner"
  using assms by (simp add: isOwner_def io_defs)

theorem isOwner_failure_reads_as_not_owner_witness:
  "isOwnerAddress offline_owner_query wallet burner = None
   \<and> isOwner offline_owner_query wallet burner = ([IsOwnerAddress wallet burner], Inr False)
   \<and> isOwner offline_owner_query wallet burner
       = isOwner (offline_owner_query\<lparr>isOwnerAddress := (\<lambda>w a. Some False)\<rparr>) wallet burner"
proof -
  have h: "isOwnerAddress offline_owner_query wallet burner = None"
    by (simp add: offline_owner_query_def)
  from isOwner_failure_reads_as_not_owner [OF h] h show ?thesis by blast
qed

subsection \<open>Call classifier\<close>

text \<open>
  On the healthy chain, a token transfer cut off after its selector cannot be decoded,
  and the pipeline returns a request for it.
\<close>

theorem truncated_transfer_counterexample:
  "target truncated_transfer \<noteq> wallet
   \<and> take 4 (data truncated_transfer) = sel_transfer
   \<and> decode_transfer (data truncated_transfer) = None
   \<and> snd (createSmartWalletTransaction healthy wallet burner truncated_transfer 1)
       = Inr (request (abi_execute truncated_transfer) 150000)"
  by (simp add: createSmartWalletTransaction_def checkContract_def verifyOwnership_def isOwner_def
      preflightChecks_def erc20Checks_def assembleExecute_def encodeExecuteCall_def
      decode_transfer_def read_address_def read_word_def uint256_ok_def feeOrZero_def
      healthy_def truncated_transfer_def wallet_def token_def request_def
      sel_transfer_def sel_safeTransferFrom_def sel_transferFrom_def sel_safeTransferFrom1155_def
      io_defs Let_def)

text \<open>
  C5, as the code has it. For a call to another contract whose payload starts with the
  selector of \<open>transfer\<close>, of \<open>transferFrom\<close> or of the ERC-1155
  \<open>safeTransferFrom\<close> and whose arguments cannot be decoded by the fragment of that
  very selector, the \<open>catch\<close> of the branch turns the failure into a warning: the
  pre-flight checks end without an error and without a simulation, and the pipeline
  goes on, its result being that of the contract check, the ownership check and the
  assembly alone. Nothing is said here about payloads with the selector of the ERC-721
  \<open>safeTransferFrom\<close>.
\<close>

theorem undecodable_payload_passes_preflight:
  assumes "target c \<noteq> sw"
    and "take 4 (data c) = sel_transfer \<and> decode_transfer (data c) = None
       \<or> take 4 (data c) = sel_safeTransferFrom1155 \<and> decode_safeTransferFrom1155 (data c) = None
       \<or> take 4 (data c) = sel_transferFrom \<and> decode_transferFrom (data c) = None"
  shows "snd (preflightChecks provider sw c) = Inr ()
       \<and> (\<forall>a b d. Simulate a b d \<notin> set (fst (preflightChecks provider sw c)))
       \<and> snd (createSmartWalletTransaction provider sw owner c chainId)
           = snd (io_bind (checkContract provider sw chainId)
                    (\<lambda>u. io_bind (verifyOwnership provider sw owner)
                            (\<lambda>u. assembleExecute provider sw owner c chainId)))"
proof -
  from assms(2) have ne: "data c \<noteq> []"
    using selectors_distinct by auto
  have pre: "preflightChecks provider sw c = ([], Inr ())
           \<or> preflightChecks provider sw c
               = ([BalanceOf (target c) sw, Symbol (target c), Decimals (target c)], Inr ())"
    using assms ne selectors_distinct
    by (auto simp: preflightChecks_def Let_def nftChecks_undecodable erc1155Checks_undecodable
        erc20Checks_undecodable io_return_def)
  then have p1: "snd (preflightChecks provider sw c) = Inr ()" by auto
  from pre have p2: "\<forall>a b d. Simulate a b d \<notin> set (fst (preflightChecks provider sw c))"
    by auto
  have p3: "snd (createSmartWalletTransaction provider sw owner c chainId)
           = snd (io_bind (checkContract provider sw chainId)
                    (\<lambda>u. io_bind (verifyOwnership provider sw owner)
                            (\<lambda>u. assembleExecute provider sw owner c chainId)))"
    using p1 by (simp add: createSmartWalletTransaction_def io_bind_def split: sum.splits)
  from p1 p2 p3 show ?thesis by blast
qed

theorem undecodable_payload_passes_preflight_witness:
  "target truncated_transfer \<noteq> wallet
   \<and> take 4 (data truncated_transfer) = sel_transfer
   \<and> decode_transfer (data truncated_transfer) = None
   \<and> snd (preflightChecks healthy wallet truncated_transfer) = Inr ()"
proof -
  have h1: "target truncated_transfer \<noteq> wallet"
    by (simp add: truncated_transfer_def token_def wallet_def)
  have h2: "take 4 (data truncated_transfer) = sel_transfer
            \<and> decode_transfer (data truncated_transfer) = None"
    by (simp add: truncated_transfer_def decode_transfer_def read_address_def read_word_def
        sel_transfer_def)
  from undecodable_payload_passes_preflight [OF h1 disjI1 [OF h2], of healthy] h1 h2
  show ?thesis by blast
qed

subsection \<open>Call encoder\<close>

text \<open>
  C6. For every token, recipient and amount within \<open>uint256\<close>, \<open>createSendERC20Call\<close>
  returns a call to the token whose payload starts with the selector of \<open>transfer\<close>,
  and the decoder of the ERC-20 branch reads the recipient and the amount back from it.
\<close>

theorem erc20_transfer_roundtrip:
  assumes "0 \<le> A" and "A < 2 ^ 256"
  shows "\<exists>c. createSendERC20Call T R A = Inr c \<and> target c = T \<and> val c = 0
              \<and> take 4 (data c) = sel_transfer
              \<and> (\<exists>a. decode_transfer (data c) = Some (R, a) \<and> int a = A)"
proof -
  have ok: "uint256_ok A" using assms by (simp add: uint256_ok_def)
  have lt: "nat A < 2 ^ 256" using assms by (simp add: nat_less_iff)
  show ?thesis
    using ok decode_transfer_encoded [OF lt, of R] assms(1)
    by (simp add: createSendERC20Call_def encode_transfer_def sel_transfer_def)
qed

theorem erc20_transfer_roundtrip_witness:
  "(0::int) \<le> 5 \<and> (5::int) < 2 ^ 256
   \<and> createSendERC20Call token friend 5 = Inr transfer_call
   \<and> decode_transfer (data transfer_call) = Some (friend, 5)"
proof -
  have h1: "(0::int) \<le> 5" and h2: "(5::int) < 2 ^ 256" by simp_all
  from erc20_transfer_roundtrip [OF h1 h2, of token friend]
  have "decode_transfer (data transfer_call) = Some (friend, 5)"
    by (simp add: createSendERC20Call_def encode_transfer_def uint256_ok_def transfer_call_def)
  moreover have "createSendERC20Call token friend 5 = Inr transfer_call"
    by (simp add: createSendERC20Call_def encode_transfer_def uint256_ok_def transfer_call_def)
  ultimately show ?thesis by simp
qed

text \<open>
  C7. For every owner index that is a safe non-negative integer and every owner bytes,
  \<open>createRemoveOwnerTransaction\<close> returns a call to the wallet whose payload starts with
  the selector of \<open>removeOwnerAtIndex\<close>, and decoding it gives back the index and the
  bytes.
\<close>

theorem remove_owner_roundtrip:
  assumes "0 \<le> i" and "i \<le> 9007199254740991" and "length b \<le> 9007199254740991"
  shows "\<exists>c. createRemoveOwnerTransaction provider sw owner i b chainId = Inr c
              \<and> target c = sw
              \<and> take 4 (data c) = sel_removeOwnerAtIndex
              \<and> (\<exists>n. decode_removeOwnerAtIndex (data c) = Some (n, b) \<and> int n = i)"
proof -
  have ok: "number_ok i" using assms by (simp add: number_ok_def maxSafeInteger_def)
  have "nat i \<le> 9007199254740991" using assms by simp
  moreover have "(9007199254740991::nat) < 2 ^ 256" by simp
  ultimately have lt: "nat i < 2 ^ 256" by (rule le_less_trans)
  have r1: "read_word (abi_word (nat i) @ abi_word 64 @ abi_bytes b) 0 = Some (nat i)"
    using read_word_at [of "[]" 0 "nat i" "abi_word 64 @ abi_bytes b"] lt by simp
  have r2: "read_bytes ((abi_word (nat i) @ abi_word 64) @ abi_bytes b @ []) 32 = Some b"
    by (rule read_bytes_at [where xs = "abi_word (nat i)" and p = 64 and mid = "[]"])
       (use assms(3) in \<open>simp_all add: maxSafeInteger_def\<close>)
  show ?thesis
    using ok r1 r2 assms(1)
    by (simp add: createRemoveOwnerTransaction_def encode_removeOwnerAtIndex_def
        decode_removeOwnerAtIndex_def sel_removeOwnerAtIndex_def)
qed

text \<open>Scenario D of the specification, with three bytes \<open>0xAA\<close>.\<close>

theorem remove_owner_roundtrip_witness:
  "(0::int) \<le> 2 \<and> (2::int) \<le> 9007199254740991
   \<and> length [0xAA, 0xAA, 0xAA :: byte] \<le> 9007199254740991
   \<and> createRemoveOwnerTransaction healthy wallet burner 2 [0xAA, 0xAA, 0xAA] 1
       = Inr \<lparr>target = wallet, val = 0,
              data = sel_removeOwnerAtIndex @ abi_word 2 @ abi_word 64
                     @ abi_bytes [0xAA, 0xAA, 0xAA]\<rparr>
   \<and> decode_removeOwnerAtIndex
        (sel_removeOwnerAtIndex @ abi_word 2 @ abi_word 64 @ abi_bytes [0xAA, 0xAA, 0xAA])
       = Some (2, [0xAA, 0xAA, 0xAA])"
proof -
  have h1: "(0::int) \<le> 2" and h2: "(2::int) \<le> 9007199254740991"
    and h3: "length [0xAA, 0xAA, 0xAA :: byte] \<le> 9007199254740991" by simp_all
  have e: "createRemoveOwnerTransaction healthy wallet burner 2 [0xAA, 0xAA, 0xAA] 1
       = Inr \<lparr>target = wallet, val = 0,
              data = sel_removeOwnerAtIndex @ abi_word 2 @ abi_word 64
                     @ abi_bytes [0xAA, 0xAA, 0xAA]\<rparr>"
    by (simp add: createRemoveOwnerTransaction_def encode_removeOwnerAtIndex_def number_ok_def
        maxSafeInteger_def)
  from remove_owner_roundtrip [OF h1 h2 h3, of healthy wallet burner 1] e
  have "decode_removeOwnerAtIndex
        (sel_removeOwnerAtIndex @ abi_word 2 @ abi_word 64 @ abi_bytes [0xAA, 0xAA, 0xAA])
       = Some (2, [0xAA, 0xAA, 0xAA])"
    by simp
  with e show ?thesis by simp
qed


end
